theory Spec2Isabelle
  imports Main
begin

section \<open>JavaScript values used by replaceDOMText\<close>

text \<open>
  Strings are lists of code units; offsets are JavaScript numbers and are kept as
  \<open>int\<close>, because the engine subtracts the running cursor from match offsets and
  relies on \<open>substring\<close> clamping negative and oversized arguments.
\<close>

definition clamp_index :: "int \<Rightarrow> nat \<Rightarrow> nat" where
  "clamp_index i n = (if i < 0 then 0 else min (nat i) n)"

text \<open>\<open>s.substring(a, b)\<close>: both arguments clamped to \<open>[0, length]\<close>, swapped when \<open>a > b\<close>.\<close>

definition substring2 :: "string \<Rightarrow> int \<Rightarrow> int \<Rightarrow> string" where
  "substring2 s a b =
     (let x = clamp_index a (length s); y = clamp_index b (length s)
      in take (max x y - min x y) (drop (min x y) s))"

text \<open>\<open>s.substring(a)\<close>.\<close>

definition substring1 :: "string \<Rightarrow> int \<Rightarrow> string" where
  "substring1 s a = drop (clamp_index a (length s)) s"

definition is_digit :: "char \<Rightarrow> bool" where
  "is_digit c = (c \<in> set ''0123456789'')"

definition digit_val :: "char \<Rightarrow> nat" where
  "digit_val c = of_char c - 48"

text \<open>The unary plus of \<open>match[+t]\<close> on a string of decimal digits.\<close>

definition digits_to_nat :: "string \<Rightarrow> nat" where
  "digits_to_nat ds = foldl (\<lambda>acc c. 10 * acc + digit_val c) 0 ds"

fun nat_digits :: "nat \<Rightarrow> string" where
  "nat_digits n =
     (if n < 10 then [char_of (48 + n)]
      else nat_digits (n div 10) @ [char_of (48 + n mod 10)])"

text \<open>\<open>String(n)\<close> for an integral number.\<close>

definition js_String_int :: "int \<Rightarrow> string" where
  "js_String_int i = (if i < 0 then CHR ''-'' # nat_digits (nat (- i)) else nat_digits (nat i))"

definition lower_char :: "char \<Rightarrow> char" where
  "lower_char c =
     (let k = (of_char c :: nat) in if 65 \<le> k \<and> k \<le> 90 then char_of (k + 32) else c)"

text \<open>\<open>toLocaleLowerCase\<close> on element names (ASCII letters).\<close>

definition toLowerCase :: "string \<Rightarrow> string" where
  "toLowerCase s = map lower_char s"

text \<open>Errors are values. \<open>OutOfFuel\<close> is not a JavaScript error: it is the value of a
  loop of the model that was given too little fuel to finish.\<close>

datatype dom_error =
  ZeroLengthMatch
  | TypeError
  | NotFoundError
  | HierarchyRequestError
  | OutOfFuel

definition bindE :: "'e + 'a \<Rightarrow> ('a \<Rightarrow> 'e + 'b) \<Rightarrow> 'e + 'b" where
  "bindE r f = (case r of Inl e \<Rightarrow> Inl e | Inr x \<Rightarrow> f x)"

section \<open>The document tree (the Tree Adapter)\<close>

text \<open>
  The tree is a store of nodes addressed by identity. Each node carries what the engine
  reads: \<open>nodeType\<close> (1 element, 3 text, anything else for comments and the like),
  \<open>nodeName\<close>, the text payload \<open>data\<close>, \<open>className\<close>, whether the node is an
  instance of the realm's \<open>Text\<close> class (what \<open>instanceof Text\<close> tests, which is
  independent of \<open>nodeType\<close> for nodes of another realm), its parent and its children.
  \<open>next_id\<close> is the next identity \<open>document.createTextNode\<close> or
  \<open>document.createElement\<close> hands out.
\<close>

record node =
  n_type :: nat
  n_name :: string
  n_data :: string
  n_class :: string
  n_is_text :: bool
  n_parent :: "nat option"
  n_children :: "nat list"

record dom =
  nodes :: "nat \<Rightarrow> node"
  next_id :: nat

definition TEXT_NODE :: nat where
  "TEXT_NODE = 3"

definition ELEMENT_NODE :: nat where
  "ELEMENT_NODE = 1"

definition nodeType :: "dom \<Rightarrow> nat \<Rightarrow> nat" where
  "nodeType d n = n_type (nodes d n)"

definition node_data :: "dom \<Rightarrow> nat \<Rightarrow> string" where
  "node_data d n = n_data (nodes d n)"

definition parentNode :: "dom \<Rightarrow> nat \<Rightarrow> nat option" where
  "parentNode d n = n_parent (nodes d n)"

definition childNodes :: "dom \<Rightarrow> nat \<Rightarrow> nat list" where
  "childNodes d n = n_children (nodes d n)"

definition firstChild :: "dom \<Rightarrow> nat \<Rightarrow> nat option" where
  "firstChild d n = (case childNodes d n of [] \<Rightarrow> None | c # _ \<Rightarrow> Some c)"

fun next_in_list :: "nat \<Rightarrow> nat list \<Rightarrow> nat option" where
  "next_in_list n [] = None"
| "next_in_list n (x # xs) =
     (if x = n then (case xs of [] \<Rightarrow> None | y # _ \<Rightarrow> Some y) else next_in_list n xs)"

definition nextSibling :: "dom \<Rightarrow> nat \<Rightarrow> nat option" where
  "nextSibling d n =
     (case parentNode d n of None \<Rightarrow> None | Some p \<Rightarrow> next_in_list n (childNodes d p))"

definition set_parent :: "dom \<Rightarrow> nat \<Rightarrow> nat option \<Rightarrow> dom" where
  "set_parent d n p = d\<lparr>nodes := (nodes d)(n := (nodes d n)\<lparr>n_parent := p\<rparr>)\<rparr>"

definition set_children :: "dom \<Rightarrow> nat \<Rightarrow> nat list \<Rightarrow> dom" where
  "set_children d n cs = d\<lparr>nodes := (nodes d)(n := (nodes d n)\<lparr>n_children := cs\<rparr>)\<rparr>"

definition new_node :: "dom \<Rightarrow> node \<Rightarrow> nat \<times> dom" where
  "new_node d nd = (next_id d, d\<lparr>nodes := (nodes d)(next_id d := nd), next_id := Suc (next_id d)\<rparr>)"

definition createTextNode :: "dom \<Rightarrow> string \<Rightarrow> nat \<times> dom" where
  "createTextNode d s =
     new_node d \<lparr>n_type = TEXT_NODE, n_name = ''#text'', n_data = s, n_class = [],
       n_is_text = True, n_parent = None, n_children = []\<rparr>"

definition createElement :: "dom \<Rightarrow> string \<Rightarrow> nat \<times> dom" where
  "createElement d name =
     new_node d \<lparr>n_type = ELEMENT_NODE, n_name = name, n_data = [], n_class = [],
       n_is_text = False, n_parent = None, n_children = []\<rparr>"

text \<open>\<open>el.cloneNode(false)\<close>: a shallow copy, detached and childless.\<close>

definition cloneNode_shallow :: "dom \<Rightarrow> nat \<Rightarrow> nat \<times> dom" where
  "cloneNode_shallow d n = new_node d ((nodes d n)\<lparr>n_parent := None, n_children := []\<rparr>)"

definition setClassName :: "dom \<Rightarrow> nat \<Rightarrow> string \<Rightarrow> dom" where
  "setClassName d n c = d\<lparr>nodes := (nodes d)(n := (nodes d n)\<lparr>n_class := c\<rparr>)\<rparr>"

text \<open>The chain \<open>n, parent n, parent (parent n), ...\<close>, at most \<open>k + 1\<close> long.\<close>

fun ancestor_chain :: "nat \<Rightarrow> dom \<Rightarrow> nat \<Rightarrow> nat list" where
  "ancestor_chain 0 d n = [n]"
| "ancestor_chain (Suc k) d n =
     n # (case parentNode d n of None \<Rightarrow> [] | Some p \<Rightarrow> ancestor_chain k d p)"

definition is_inclusive_ancestor :: "dom \<Rightarrow> nat \<Rightarrow> nat \<Rightarrow> bool" where
  "is_inclusive_ancestor d a n = (a \<in> set (ancestor_chain (next_id d) d n))"

text \<open>Removing a node from its parent, if it has one (the adoption step of every DOM
  insertion).\<close>

definition detach :: "dom \<Rightarrow> nat \<Rightarrow> dom" where
  "detach d n =
     (case parentNode d n of
        None \<Rightarrow> d
      | Some p \<Rightarrow> set_parent (set_children d p (remove1 n (childNodes d p))) n None)"

fun insert_before_list :: "nat \<Rightarrow> nat \<Rightarrow> nat list \<Rightarrow> nat list" where
  "insert_before_list new ref [] = []"
| "insert_before_list new ref (x # xs) =
     (if x = ref then new # x # xs else x # insert_before_list new ref xs)"

fun replace_in_list :: "nat \<Rightarrow> nat \<Rightarrow> nat list \<Rightarrow> nat list" where
  "replace_in_list new old [] = []"
| "replace_in_list new old (x # xs) =
     (if x = old then new # xs else x # replace_in_list new old xs)"

text \<open>\<open>parent.insertBefore(new, ref)\<close> with a non-null \<open>ref\<close>. The DOM refuses a node
  that is an inclusive ancestor of the parent and a reference node that is not a child
  of the parent; it removes \<open>new\<close> from its old parent before inserting it.\<close>

definition insertBefore :: "dom \<Rightarrow> nat \<Rightarrow> nat \<Rightarrow> nat \<Rightarrow> (dom_error \<times> dom) + dom" where
  "insertBefore d p new ref =
     (if is_inclusive_ancestor d new p then Inl (HierarchyRequestError, d)
      else if ref \<notin> set (childNodes d p) then Inl (NotFoundError, d)
      else if new = ref then Inr d
      else let d1 = detach d new
           in Inr (set_parent (set_children d1 p (insert_before_list new ref (childNodes d1 p)))
                     new (Some p)))"

text \<open>\<open>parent.removeChild(child)\<close>.\<close>

definition removeChild :: "dom \<Rightarrow> nat \<Rightarrow> nat \<Rightarrow> (dom_error \<times> dom) + dom" where
  "removeChild d p c =
     (if c \<notin> set (childNodes d p) then Inl (NotFoundError, d)
      else Inr (set_parent (set_children d p (remove1 c (childNodes d p))) c None))"

text \<open>\<open>parent.replaceChild(new, old)\<close>.\<close>

definition replaceChild :: "dom \<Rightarrow> nat \<Rightarrow> nat \<Rightarrow> nat \<Rightarrow> (dom_error \<times> dom) + dom" where
  "replaceChild d p new old =
     (if is_inclusive_ancestor d new p then Inl (HierarchyRequestError, d)
      else if old \<notin> set (childNodes d p) then Inl (NotFoundError, d)
      else if new = old then Inr d
      else let d1 = detach d new
           in Inr (set_parent
                     (set_parent (set_children d1 p (replace_in_list new old (childNodes d1 p)))
                        old None)
                     new (Some p)))"

text \<open>\<open>parent.appendChild(new)\<close>.\<close>

definition appendChild :: "dom \<Rightarrow> nat \<Rightarrow> nat \<Rightarrow> (dom_error \<times> dom) + dom" where
  "appendChild d p new =
     (if is_inclusive_ancestor d new p then Inl (HierarchyRequestError, d)
      else let d1 = detach d new
           in Inr (set_parent (set_children d1 p (childNodes d1 p @ [new])) new (Some p)))"

text \<open>\<open>x.parentNode!.op(...)\<close>: calling a method on a null parent is a \<open>TypeError\<close>.\<close>

definition insertBefore_at :: "dom \<Rightarrow> nat option \<Rightarrow> nat \<Rightarrow> nat \<Rightarrow> (dom_error \<times> dom) + dom" where
  "insertBefore_at d po new ref =
     (case po of None \<Rightarrow> Inl (TypeError, d) | Some p \<Rightarrow> insertBefore d p new ref)"

definition removeChild_at :: "dom \<Rightarrow> nat option \<Rightarrow> nat \<Rightarrow> (dom_error \<times> dom) + dom" where
  "removeChild_at d po c =
     (case po of None \<Rightarrow> Inl (TypeError, d) | Some p \<Rightarrow> removeChild d p c)"

definition replaceChild_at :: "dom \<Rightarrow> nat option \<Rightarrow> nat \<Rightarrow> nat \<Rightarrow> (dom_error \<times> dom) + dom" where
  "replaceChild_at d po new old =
     (case po of None \<Rightarrow> Inl (TypeError, d) | Some p \<Rightarrow> replaceChild d p new old)"

section \<open>Options, portions and matches\<close>

datatype PortionMode = RETAIN | FIRST

datatype Preset = PROSE

text \<open>\<open>RegExpMatchArray\<close>: the matched text \<open>match[0]\<close>, the capture groups
  \<open>match[1], match[2], ...\<close> (\<open>None\<close> for a group that did not take part), the
  offset of the match in its input, and the input.\<close>

record raw_match =
  r_text :: string
  r_caps :: "string option list"
  r_index :: nat
  r_input :: string

text \<open>\<open>MatchWithMeta\<close>: \<open>prepMatch\<close> overwrites \<open>index\<close> with the match number and
  adds the offsets in the aggregated text.\<close>

record match_meta =
  m_text :: string
  m_caps :: "string option list"
  m_startIndex :: int
  m_endIndex :: int
  m_index :: nat
  m_input :: string

record portion =
  p_node :: nat
  p_index :: nat
  p_text :: string
  p_indexInMatch :: nat
  p_indexInNode :: int
  p_endIndexInNode :: int
  p_isEnd :: bool

text \<open>
  A \<open>RegExp\<close> is the Pattern Engine's object: its \<open>global\<close> flag, its \<open>lastIndex\<close>
  when it is handed over, and a matcher that, asked for the leftmost match at or after a
  position, answers with the start, the length and the capture groups. \<open>regex_exec\<close>
  is \<open>RegExp.prototype.exec\<close> on top of it: it refuses a start beyond the input and
  an answer outside \<open>[from, length]\<close>, reads \<open>match[0]\<close> off the input and reports
  the input itself.
\<close>

record regex =
  rx_global :: bool
  rx_lastIndex :: nat
  rx_matcher :: "string \<Rightarrow> nat \<Rightarrow> (nat \<times> nat \<times> string option list) option"

definition regex_exec :: "regex \<Rightarrow> string \<Rightarrow> nat \<Rightarrow> raw_match option" where
  "regex_exec rx item from =
     (if length item < from then None
      else case rx_matcher rx item from of
             None \<Rightarrow> None
           | Some (start, len, caps) \<Rightarrow>
               if from \<le> start \<and> start + len \<le> length item
               then Some \<lparr>r_text = take len (drop start item), r_caps = caps,
                          r_index = start, r_input = item\<rparr>
               else None)"

text \<open>The matcher of \<open>new RegExp(escapeRegExp(str), 'g')\<close>: every special character
  of \<open>str\<close> is escaped, so the pattern matches \<open>str\<close> literally; there are no groups.\<close>

fun literal_from :: "string \<Rightarrow> string \<Rightarrow> nat \<Rightarrow> nat option" where
  "literal_from pat [] pos = (if pat = [] then Some pos else None)"
| "literal_from pat (c # cs) pos =
     (if take (length pat) (c # cs) = pat then Some pos else literal_from pat cs (Suc pos))"

definition literal_matcher :: "string \<Rightarrow> string \<Rightarrow> nat \<Rightarrow> (nat \<times> nat \<times> string option list) option" where
  "literal_matcher pat item from =
     (case literal_from pat (drop from item) from of
        None \<Rightarrow> None
      | Some pos \<Rightarrow> Some (pos, length pat, []))"

datatype find_spec = FindString string | FindRegExp regex

text \<open>\<open>typeof rawFind === 'string' ? new RegExp(escapeRegExp(rawFind), 'g') : rawFind\<close>\<close>

definition find_regex :: "find_spec \<Rightarrow> regex" where
  "find_regex f =
     (case f of
        FindString str \<Rightarrow> \<lparr>rx_global = True, rx_lastIndex = 0, rx_matcher = literal_matcher str\<rparr>
      | FindRegExp rx \<Rightarrow> rx)"

text \<open>What a replacement function returns: a string, a number (both coerced with
  \<open>String(result)\<close>), or a node the caller holds.\<close>

datatype fn_result = ResString string | ResNumber int | ResNode nat

datatype replace_spec =
  ReplaceString string
  | ReplaceFn "portion \<Rightarrow> match_meta \<Rightarrow> fn_result"

datatype wrap_spec = WrapName string | WrapStencil nat

datatype force_context = ForceBool bool | ForceFn "dom \<Rightarrow> nat \<Rightarrow> bool"

record options =
  o_find :: find_spec
  o_replace :: "replace_spec option"
  o_wrap :: "wrap_spec option"
  o_wrapClass :: "string option"
  o_portionMode :: "PortionMode option"
  o_filterElements :: "(dom \<Rightarrow> nat \<Rightarrow> bool) option"
  o_forceContext :: "force_context option"
  o_preset :: "Preset option"

section \<open>Presets\<close>

definition NON_PROSE_ELEMENTS :: "string list" where
  "NON_PROSE_ELEMENTS =
     [''br'', ''hr'',
      ''script'', ''style'', ''img'', ''video'', ''audio'', ''canvas'', ''svg'', ''map'', ''object'',
      ''input'', ''textarea'', ''select'', ''option'', ''optgroup'', ''button'']"

definition NON_CONTIGUOUS_PROSE_ELEMENTS :: "string list" where
  "NON_CONTIGUOUS_PROSE_ELEMENTS =
     [''address'', ''article'', ''aside'', ''blockquote'', ''dd'', ''div'', ''dl'', ''fieldset'',
      ''figcaption'', ''figure'', ''footer'', ''form'', ''h1'', ''h2'', ''h3'', ''h4'', ''h5'', ''h6'',
      ''header'', ''hgroup'', ''hr'', ''main'', ''nav'', ''noscript'', ''ol'', ''output'', ''p'', ''pre'',
      ''section'', ''ul'',
      ''br'', ''li'', ''summary'', ''dt'', ''details'', ''rp'', ''rt'', ''rtc'',
      ''script'', ''style'', ''img'', ''video'', ''audio'', ''canvas'', ''svg'', ''map'', ''object'',
      ''input'', ''textarea'', ''select'', ''option'', ''optgroup'', ''button'',
      ''table'', ''tbody'', ''thead'', ''th'', ''tr'', ''td'', ''caption'', ''col'', ''tfoot'',
      ''colgroup'']"

text \<open>\<open>key in obj\<close> for an object literal: its own keys, and the keys it inherits from
  \<open>Object.prototype\<close>. Of the inherited ones only \<open>constructor\<close> and \<open>__proto__\<close>
  can equal a lower-cased name.\<close>

definition key_in_object :: "string \<Rightarrow> string list \<Rightarrow> bool" where
  "key_in_object k own = (k \<in> set own \<or> k \<in> set [''constructor'', ''__proto__''])"

definition NON_INLINE_PROSE :: "dom \<Rightarrow> nat \<Rightarrow> bool" where
  "NON_INLINE_PROSE d el = key_in_object (toLowerCase (n_name (nodes d el))) NON_CONTIGUOUS_PROSE_ELEMENTS"

definition prose_filterElements :: "dom \<Rightarrow> nat \<Rightarrow> bool" where
  "prose_filterElements d el = (\<not> key_in_object (toLowerCase (n_name (nodes d el))) NON_PROSE_ELEMENTS)"

text \<open>\<open>options = { ...options, ...preset }\<close> for \<open>PRESETS[p]\<close>: every key of the
  preset is copied over the key of the same name.\<close>

definition apply_preset :: "Preset \<Rightarrow> options \<Rightarrow> options" where
  "apply_preset p opts =
     (case p of
        PROSE \<Rightarrow> opts\<lparr>o_forceContext := Some (ForceFn NON_INLINE_PROSE),
                       o_filterElements := Some prose_filterElements\<rparr>)"

text \<open>The first lines of the constructor: the default portion mode, then the preset.\<close>

definition effective_options :: "options \<Rightarrow> options" where
  "effective_options options0 =
     (let options1 = options0\<lparr>o_portionMode :=
            Some (case o_portionMode options0 of None \<Rightarrow> RETAIN | Some pm \<Rightarrow> pm)\<rparr>
      in case o_preset options1 of
           None \<Rightarrow> options1
         | Some p \<Rightarrow> apply_preset p options1)"

section \<open>The Text Aggregator\<close>

datatype agg_item = Leaf string | Nested "agg_item list"

type_synonym text_agg = "agg_item list"

definition filtered_out :: "options \<Rightarrow> dom \<Rightarrow> nat \<Rightarrow> bool" where
  "filtered_out opts d el =
     (case o_filterElements opts of None \<Rightarrow> False | Some f \<Rightarrow> \<not> f d el)"

definition forces_context :: "options \<Rightarrow> dom \<Rightarrow> nat \<Rightarrow> bool" where
  "forces_context opts d child =
     (case o_forceContext opts of
        None \<Rightarrow> False
      | Some (ForceBool b) \<Rightarrow> b
      | Some (ForceFn f) \<Rightarrow> f d child)"

text \<open>
  \<open>getText\<close>. The array \<open>txt\<close> always ends with the string under construction
  \<open>txt[i]\<close>; the model keeps the finished entries in \<open>acc\<close> and that string in
  \<open>cur\<close>. The \<open>firstChild\<close>/\<open>nextSibling\<close> walk is the walk over the child list. The
  recursion follows the tree through the store, so it takes fuel: one unit per level.
\<close>

fun getText :: "nat \<Rightarrow> dom \<Rightarrow> options \<Rightarrow> nat \<Rightarrow> dom_error + text_agg"
  and getText_children ::
    "nat \<Rightarrow> dom \<Rightarrow> options \<Rightarrow> nat list \<Rightarrow> text_agg \<Rightarrow> string \<Rightarrow> dom_error + text_agg"
where
  "getText fuel d opts n =
     (if nodeType d n = TEXT_NODE then Inr [Leaf (node_data d n)]
      else if nodeType d n \<noteq> ELEMENT_NODE then Inr []
      else if filtered_out opts d n then Inr []
      else case fuel of
             0 \<Rightarrow> Inl OutOfFuel
           | Suc k \<Rightarrow> getText_children k d opts (childNodes d n) [] [])"
| "getText_children k d opts [] acc cur = Inr (acc @ [Leaf cur])"
| "getText_children k d opts (child # rest) acc cur =
     (if nodeType d child = TEXT_NODE
      then getText_children k d opts rest acc (cur @ node_data d child)
      else case getText k d opts child of
             Inl e \<Rightarrow> Inl e
           | Inr innerText \<Rightarrow>
               if forces_context opts d child
               then getText_children k d opts rest (acc @ [Leaf cur, Nested innerText]) []
               else (case innerText of
                       Leaf s # others \<Rightarrow>
                         if others \<noteq> []
                         then getText_children k d opts rest (acc @ [Leaf (cur @ s), Nested others]) []
                         else getText_children k d opts rest acc (cur @ s)
                     | _ \<Rightarrow>
                         if innerText \<noteq> []
                         then getText_children k d opts rest (acc @ [Leaf cur, Nested innerText]) []
                         else getText_children k d opts rest acc cur))"

definition getAggregateText :: "nat \<Rightarrow> dom \<Rightarrow> options \<Rightarrow> nat \<Rightarrow> dom_error + text_agg" where
  "getAggregateText fuel d opts root = getText fuel d opts root"

section \<open>The Matcher\<close>

definition prepMatch :: "raw_match \<Rightarrow> nat \<Rightarrow> int \<Rightarrow> dom_error + match_meta" where
  "prepMatch m matchIndex characterOffset =
     (if r_text m = [] then Inl ZeroLengthMatch
      else Inr \<lparr>m_text = r_text m, m_caps = r_caps m,
                m_startIndex = characterOffset + int (r_index m),
                m_endIndex = characterOffset + int (r_index m) + int (length (r_text m)),
                m_index = matchIndex, m_input = r_input m\<rparr>)"

lemma regex_exec_bounds:
  assumes "regex_exec rx item from = Some m"
  shows "from \<le> r_index m" and "r_index m + length (r_text m) \<le> length item"
    and "r_text m = take (length (r_text m)) (drop (r_index m) item)" and "r_input m = item"
  using assms
  by (auto simp: regex_exec_def split: if_splits option.splits prod.splits)

lemma prepMatch_Inr_nonempty: "prepMatch m i off = Inr pm \<Longrightarrow> r_text m \<noteq> []"
  by (auto simp: prepMatch_def split: if_splits)

text \<open>The global branch: \<open>exec\<close> until it fails, each call starting where the last
  match ended. \<open>prepMatch\<close> throws on an empty match, so the position advances.\<close>

function exec_loop ::
  "regex \<Rightarrow> string \<Rightarrow> int \<Rightarrow> nat \<Rightarrow> nat \<Rightarrow> match_meta list \<Rightarrow> dom_error + (match_meta list \<times> nat)"
where
  "exec_loop rx item offset lastIndex matchIndex matches =
     (case regex_exec rx item lastIndex of
        None \<Rightarrow> Inr (matches, matchIndex)
      | Some m \<Rightarrow>
          (case prepMatch m matchIndex offset of
             Inl e \<Rightarrow> Inl e
           | Inr pm \<Rightarrow>
               exec_loop rx item offset (r_index m + length (r_text m)) (Suc matchIndex)
                 (matches @ [pm])))"
  by pat_completeness auto
termination
proof (relation "measure (\<lambda>(rx, item, offset, lastIndex, matchIndex, matches). length item - lastIndex)")
  show "wf (measure (\<lambda>(rx, item, offset, lastIndex, matchIndex, matches). length item - lastIndex))"
    by simp
next
  fix rx :: regex and item :: string and offset :: int and lastIndex matchIndex :: nat
    and matches :: "match_meta list" and m pm
  assume ex: "regex_exec rx item lastIndex = Some m"
    and pr: "prepMatch m matchIndex offset = Inr pm"
  have "r_text m \<noteq> []" using pr by (rule prepMatch_Inr_nonempty)
  then have "0 < length (r_text m)" by simp
  with regex_exec_bounds(1,2)[OF ex]
  show "((rx, item, offset, r_index m + length (r_text m), Suc matchIndex, matches @ [pm]),
         (rx, item, offset, lastIndex, matchIndex, matches))
        \<in> measure (\<lambda>(rx, item, offset, lastIndex, matchIndex, matches). length item - lastIndex)"
    by (cases "r_text m") auto
qed

record search_state =
  ss_matches :: "match_meta list"
  ss_matchIndex :: nat
  ss_offset :: int
  ss_lastIndex :: nat

text \<open>\<open>matchAggregation\<close>, with the variables it closes over (\<open>matches\<close>,
  \<open>matchIndex\<close>, \<open>offset\<close> and the regex's \<open>lastIndex\<close>) passed as state.\<close>

fun matchAggregation :: "regex \<Rightarrow> text_agg \<Rightarrow> search_state \<Rightarrow> dom_error + search_state"
  and match_item :: "regex \<Rightarrow> agg_item \<Rightarrow> search_state \<Rightarrow> dom_error + search_state"
where
  "matchAggregation rx [] st = Inr st"
| "matchAggregation rx (item # rest) st =
     (case match_item rx item st of
        Inl e \<Rightarrow> Inl e
      | Inr st' \<Rightarrow> matchAggregation rx rest st')"
| "match_item rx (Nested textAgg) st = matchAggregation rx textAgg st"
| "match_item rx (Leaf item) st =
     (if rx_global rx
      then (case exec_loop rx item (ss_offset st) (ss_lastIndex st) (ss_matchIndex st) (ss_matches st) of
              Inl e \<Rightarrow> Inl e
            | Inr (ms, mi) \<Rightarrow>
                Inr (st\<lparr>ss_matches := ms, ss_matchIndex := mi, ss_lastIndex := 0,
                        ss_offset := ss_offset st + int (length item)\<rparr>))
      else (case regex_exec rx item 0 of
              None \<Rightarrow> Inr (st\<lparr>ss_offset := ss_offset st + int (length item)\<rparr>)
            | Some m \<Rightarrow>
                (case prepMatch m 0 (ss_offset st) of
                   Inl e \<Rightarrow> Inl e
                 | Inr pm \<Rightarrow>
                     Inr (st\<lparr>ss_matches := ss_matches st @ [pm],
                             ss_offset := ss_offset st + int (length item)\<rparr>))))"

definition search_agg :: "options \<Rightarrow> text_agg \<Rightarrow> dom_error + match_meta list" where
  "search_agg opts textAggregation =
     (let regex = find_regex (o_find opts)
      in case matchAggregation regex textAggregation
                \<lparr>ss_matches = [], ss_matchIndex = 0, ss_offset = 0,
                 ss_lastIndex = rx_lastIndex regex\<rparr> of
           Inl e \<Rightarrow> Inl e
         | Inr st \<Rightarrow> Inr (ss_matches st))"

definition search :: "nat \<Rightarrow> dom \<Rightarrow> options \<Rightarrow> nat \<Rightarrow> dom_error + match_meta list" where
  "search fuel d opts root =
     (case getAggregateText fuel d opts root of
        Inl e \<Rightarrow> Inl e
      | Inr textAggregation \<Rightarrow> search_agg opts textAggregation)"

section \<open>The replacement policy\<close>

text \<open>\<open>match[+t] || ''\<close>\<close>

definition match_group :: "match_meta \<Rightarrow> nat \<Rightarrow> string" where
  "match_group m k =
     (if k = 0 then m_text m
      else if k - 1 < length (m_caps m)
           then (case m_caps m ! (k - 1) of None \<Rightarrow> [] | Some g \<Rightarrow> g)
           else [])"

text \<open>\<open>str.replace(/\$(\d+|[&`'])/g, ...)\<close>: a dollar sign followed by a run of digits
  (as long as possible), an ampersand, a backtick (code 0x60) or an apostrophe (code
  0x27) is a token; everything else is copied.\<close>

lemma dropWhile_shorter: "length (dropWhile P xs) < Suc (Suc (length xs))"
  using length_dropWhile_le [of P xs] by simp

function interpolate :: "string \<Rightarrow> match_meta \<Rightarrow> string" where
  "interpolate [] m = []"
| "interpolate (c # cs) m =
     (if c = CHR ''$''
      then (case cs of
              [] \<Rightarrow> [c]
            | t # ts \<Rightarrow>
                if t = CHR ''&'' then m_text m @ interpolate ts m
                else if t = CHR 0x60
                     then substring2 (m_input m) 0 (m_startIndex m) @ interpolate ts m
                else if t = CHR 0x27
                     then substring1 (m_input m) (m_endIndex m) @ interpolate ts m
                else if is_digit t
                     then match_group m (digits_to_nat (takeWhile is_digit cs))
                            @ interpolate (dropWhile is_digit cs) m
                else c # interpolate cs m)
      else c # interpolate cs m)"
  by pat_completeness auto
termination
  by (relation "measure (\<lambda>(s, m). length s)")
     (auto simp: dropWhile_shorter)

definition prepareReplacementString ::
  "options \<Rightarrow> string \<Rightarrow> portion \<Rightarrow> match_meta \<Rightarrow> string"
where
  "prepareReplacementString opts str portion m =
     (if o_portionMode opts = Some FIRST \<and> 0 < p_indexInMatch portion then []
      else let str' = interpolate str m
           in if o_portionMode opts = Some FIRST then str'
              else if p_isEnd portion then substring1 str' (int (p_indexInMatch portion))
              else substring2 str' (int (p_indexInMatch portion))
                     (int (p_indexInMatch portion) + int (length (p_text portion))))"

text \<open>\<open>!wrap\<close>: no wrap option, or the empty element name.\<close>

definition no_wrap :: "options \<Rightarrow> bool" where
  "no_wrap opts =
     (case o_wrap opts of None \<Rightarrow> True | Some (WrapName nm) \<Rightarrow> nm = [] | Some (WrapStencil el) \<Rightarrow> False)"

definition wrapper_element :: "dom \<Rightarrow> options \<Rightarrow> nat \<times> dom" where
  "wrapper_element d opts =
     (let (el, d1) = (case o_wrap opts of
                        Some (WrapStencil stencil) \<Rightarrow> cloneNode_shallow d stencil
                      | Some (WrapName nm) \<Rightarrow> createElement d nm
                      | None \<Rightarrow> createElement d [])
      in case o_wrapClass opts of
           None \<Rightarrow> (el, d1)
         | Some c \<Rightarrow> if c = [] then (el, d1) else (el, setClassName d1 el c))"

definition getPortionReplacementNode ::
  "dom \<Rightarrow> options \<Rightarrow> portion \<Rightarrow> match_meta \<Rightarrow> (dom_error \<times> dom) + (nat \<times> dom)"
where
  "getPortionReplacementNode d opts portion m =
     (case (case o_replace opts of None \<Rightarrow> ReplaceString ''$&'' | Some r \<Rightarrow> r) of
        ReplaceFn f \<Rightarrow>
          (case f portion m of
             ResNode n \<Rightarrow> Inr (n, d)
           | ResString str \<Rightarrow> Inr (createTextNode d str)
           | ResNumber i \<Rightarrow> Inr (createTextNode d (js_String_int i)))
      | ReplaceString str \<Rightarrow>
          (let replacementText = prepareReplacementString opts str portion m;
               (textNode, d1) = createTextNode d replacementText
           in if no_wrap opts then Inr (textNode, d1)
              else if length replacementText = 0 then Inr (createTextNode d1 [])
              else let (el, d2) = wrapper_element d1 opts
                   in bindE (appendChild d2 el textNode) (\<lambda>d3. Inr (el, d3))))"

section \<open>The Rewriter\<close>

text \<open>
  An inverse operation is the closure \<open>replaceMatch\<close> pushes onto \<open>reverts\<close>, kept
  as the values it captured. \<open>RevertSingle parent precedingTextNode followingTextNode
  newNode node\<close> is the closure of the one-node case, \<open>RevertInner innerNode node\<close> the
  closure of an inner portion, and \<open>RevertMulti startPreceding firstNode matchStartNode
  startFollowing endPreceding lastNode matchEndNode endFollowing\<close> the closure of the
  start and end nodes of a match over several nodes.
\<close>

datatype revert_op =
  RevertSingle "nat option" "nat option" "nat option" nat nat
  | RevertInner nat nat
  | RevertMulti "nat option" nat nat "nat option" "nat option" nat nat "nat option"

text \<open>\<open>cond ? document.createTextNode(s) : null\<close>\<close>

definition text_node_if :: "dom \<Rightarrow> bool \<Rightarrow> string \<Rightarrow> nat option \<times> dom" where
  "text_node_if d cond s =
     (if cond then (let (t, d1) = createTextNode d s in (Some t, d1)) else (None, d))"

text \<open>\<open>if (x) ref.parentNode!.insertBefore(x, ref)\<close>\<close>

definition insert_if :: "dom \<Rightarrow> nat option \<Rightarrow> nat \<Rightarrow> (dom_error \<times> dom) + dom" where
  "insert_if d x ref =
     (case x of None \<Rightarrow> Inr d | Some t \<Rightarrow> insertBefore_at d (parentNode d ref) t ref)"

text \<open>The loop over \<open>innerPortions\<close>: each inner node is replaced wholesale.\<close>

fun replace_inner ::
  "dom \<Rightarrow> options \<Rightarrow> match_meta \<Rightarrow> portion list
     \<Rightarrow> (dom_error \<times> dom) + (dom \<times> revert_op list \<times> nat list)"
where
  "replace_inner d opts m [] = Inr (d, [], [])"
| "replace_inner d opts m (portion # rest) =
     (case getPortionReplacementNode d opts portion m of
        Inl e \<Rightarrow> Inl e
      | Inr (innerNode, d1) \<Rightarrow>
          (case replaceChild_at d1 (parentNode d1 (p_node portion)) innerNode (p_node portion) of
             Inl e \<Rightarrow> Inl e
           | Inr d2 \<Rightarrow>
               (case replace_inner d2 opts m rest of
                  Inl e \<Rightarrow> Inl e
                | Inr (d3, rvs, created) \<Rightarrow>
                    Inr (d3, RevertInner innerNode (p_node portion) # rvs, innerNode # created))))"

text \<open>The branch \<open>matchStartNode === matchEndNode\<close>. \<open>parent\<close> is read once.\<close>

definition replaceMatch_single ::
  "dom \<Rightarrow> options \<Rightarrow> match_meta \<Rightarrow> portion \<Rightarrow> portion
     \<Rightarrow> (dom_error \<times> dom) + (dom \<times> revert_op list \<times> nat list \<times> nat option)"
where
  "replaceMatch_single d opts m startPortion endPortion =
     (let node = p_node startPortion;
          parent = parentNode d node;
          (precedingTextNode, d1) =
             text_node_if d (0 < p_indexInNode startPortion)
               (substring2 (node_data d node) 0 (p_indexInNode startPortion))
      in bindE (case precedingTextNode of
                  None \<Rightarrow> Inr d1
                | Some t \<Rightarrow> insertBefore_at d1 parent t node) (\<lambda>d2.
         bindE (getPortionReplacementNode d2 opts endPortion m) (\<lambda>(newNode, d3).
         bindE (insertBefore_at d3 parent newNode node) (\<lambda>d4.
         let (followingTextNode, d5) =
                text_node_if d4 (p_endIndexInNode endPortion < int (length (node_data d4 node)))
                  (substring1 (node_data d4 node) (p_endIndexInNode endPortion))
         in bindE (case followingTextNode of
                     None \<Rightarrow> Inr d5
                   | Some t \<Rightarrow> insertBefore_at d5 parent t node) (\<lambda>d6.
            bindE (removeChild_at d6 parent node) (\<lambda>d7.
              Inr (d7,
                   [RevertSingle parent precedingTextNode followingTextNode newNode node],
                   [newNode],
                   Some (case followingTextNode of None \<Rightarrow> newNode | Some t \<Rightarrow> t))))))))"

text \<open>The branch of a match over several nodes. The start node and the end node are
  each split the same way: the optional leftover before, the replacement, the optional
  leftover after, all inserted before the node, which is then removed. Every
  \<open>x.parentNode!\<close> is read at the moment of its call.\<close>

definition splice_around ::
  "dom \<Rightarrow> nat option \<Rightarrow> nat \<Rightarrow> nat option \<Rightarrow> nat \<Rightarrow> (dom_error \<times> dom) + dom"
where
  "splice_around d preceding newNode following ref =
     bindE (insert_if d preceding ref) (\<lambda>d1.
     bindE (insertBefore_at d1 (parentNode d1 ref) newNode ref) (\<lambda>d2.
     bindE (insert_if d2 following ref) (\<lambda>d3.
       removeChild_at d3 (parentNode d3 ref) ref)))"

definition replaceMatch_multi ::
  "dom \<Rightarrow> options \<Rightarrow> match_meta \<Rightarrow> portion \<Rightarrow> portion list \<Rightarrow> portion
     \<Rightarrow> (dom_error \<times> dom) + (dom \<times> revert_op list \<times> nat list \<times> nat option)"
where
  "replaceMatch_multi d opts m startPortion innerPortions endPortion =
     (let matchStartNode = p_node startPortion;
          matchEndNode = p_node endPortion;
          (startPreceding, d1) =
             text_node_if d (0 < p_indexInNode startPortion)
               (substring2 (node_data d matchStartNode) 0 (p_indexInNode startPortion));
          (startFollowing, d2) =
             text_node_if d1
               (p_endIndexInNode startPortion < int (length (node_data d1 matchStartNode)))
               (substring1 (node_data d1 matchStartNode) (p_endIndexInNode startPortion))
      in bindE (getPortionReplacementNode d2 opts startPortion m) (\<lambda>(firstNode, d3).
         bindE (splice_around d3 startPreceding firstNode startFollowing matchStartNode) (\<lambda>d4.
         bindE (replace_inner d4 opts m innerPortions) (\<lambda>(d5, innerReverts, innerCreated).
         bindE (getPortionReplacementNode d5 opts endPortion m) (\<lambda>(lastNode, d6).
         let (endPreceding, d7) =
                text_node_if d6 (0 < p_indexInNode endPortion)
                  (substring2 (node_data d6 matchEndNode) 0 (p_indexInNode endPortion));
             (endFollowing, d8) =
                text_node_if d7
                  (p_endIndexInNode endPortion < int (length (node_data d7 matchEndNode)))
                  (substring1 (node_data d7 matchEndNode) (p_endIndexInNode endPortion))
         in bindE (splice_around d8 endPreceding lastNode endFollowing matchEndNode) (\<lambda>d9.
              Inr (d9,
                   innerReverts
                     @ [RevertMulti startPreceding firstNode matchStartNode startFollowing
                          endPreceding lastNode matchEndNode endFollowing],
                   firstNode # innerCreated @ [lastNode],
                   Some (case endFollowing of None \<Rightarrow> lastNode | Some t \<Rightarrow> t))))))))"

text \<open>\<open>replaceMatch\<close>: the result is the new tree, the inverse operations pushed, the
  nodes added to \<open>createdNodes\<close>, and the node returned (\<open>None\<close> for \<open>null\<close>).\<close>

definition replaceMatch ::
  "dom \<Rightarrow> options \<Rightarrow> match_meta \<Rightarrow> portion \<Rightarrow> portion list \<Rightarrow> portion
     \<Rightarrow> (dom_error \<times> dom) + (dom \<times> revert_op list \<times> nat list \<times> nat option)"
where
  "replaceMatch d opts m startPortion innerPortions endPortion =
     (if \<not> n_is_text (nodes d (p_node startPortion)) \<or> \<not> n_is_text (nodes d (p_node endPortion))
      then Inr (d, [], [], None)
      else if p_node startPortion = p_node endPortion
           then replaceMatch_single d opts m startPortion endPortion
           else replaceMatch_multi d opts m startPortion innerPortions endPortion)"

section \<open>The Portion Resolver and its traversal\<close>

record pm_state =
  s_dom :: dom
  s_reverts :: "revert_op list"
  s_created :: "nat list"
  s_matches :: "match_meta list"
  s_match :: "match_meta option"
  s_startPortion :: "portion option"
  s_endPortion :: "portion option"
  s_innerPortions :: "portion list"
  s_curNode :: "nat option"
  s_atIndex :: int
  s_portionIndex :: nat
  s_consumedInMatch :: nat
  s_nodeStack :: "nat list"
  s_done :: bool

text \<open>The block run on a text node while a match is pending (source lines 392 to 432).\<close>

definition visit_text :: "pm_state \<Rightarrow> nat \<Rightarrow> match_meta \<Rightarrow> pm_state" where
  "visit_text s curNode m =
     (let curText = node_data (s_dom s) curNode;
          textLength = int (length curText);
          atIndex = s_atIndex s;
          s1 = (if s_endPortion s = None \<and> m_endIndex m \<le> atIndex + textLength
                then s\<lparr>s_endPortion := Some
                         \<lparr>p_node = curNode, p_index = s_portionIndex s,
                          p_text = substring2 curText (m_startIndex m - atIndex) (m_endIndex m - atIndex),
                          p_indexInMatch = s_consumedInMatch s,
                          p_indexInNode = m_startIndex m - atIndex,
                          p_endIndexInNode = m_endIndex m - atIndex,
                          p_isEnd = True\<rparr>,
                       s_portionIndex := Suc (s_portionIndex s)\<rparr>
                else if s_startPortion s \<noteq> None
                then s\<lparr>s_innerPortions := s_innerPortions s @
                         [\<lparr>p_node = curNode, p_index = s_portionIndex s,
                           p_text = curText,
                           p_indexInMatch = s_consumedInMatch s,
                           p_indexInNode = 0,
                           p_endIndexInNode = int (length curText),
                           p_isEnd = False\<rparr>],
                       s_portionIndex := Suc (s_portionIndex s),
                       s_consumedInMatch := s_consumedInMatch s + length curText\<rparr>
                else s);
          s2 = (if s_startPortion s1 = None \<and> m_startIndex m < atIndex + textLength
                then s1\<lparr>s_startPortion := Some
                          \<lparr>p_node = curNode, p_index = s_portionIndex s1,
                           p_text = substring2 curText (m_startIndex m - atIndex) (m_endIndex m - atIndex),
                           p_indexInMatch = 0,
                           p_indexInNode = m_startIndex m - atIndex,
                           p_endIndexInNode = m_endIndex m - atIndex,
                           p_isEnd = False\<rparr>,
                        s_portionIndex := Suc (s_portionIndex s1),
                        s_consumedInMatch :=
                          length (substring2 curText (m_startIndex m - atIndex) (m_endIndex m - atIndex))\<rparr>
                else s1)
      in s2\<lparr>s_atIndex := atIndex + textLength\<rparr>)"

text \<open>\<open>if (curNode.nodeType === Node.TEXT_NODE && match) { ... }\<close>\<close>

definition visit :: "pm_state \<Rightarrow> nat \<Rightarrow> pm_state" where
  "visit s curNode =
     (case s_match s of
        None \<Rightarrow> s
      | Some m \<Rightarrow> if nodeType (s_dom s) curNode = TEXT_NODE then visit_text s curNode m else s)"

text \<open>``Pop back up until we find a sibling or run out'': the stack's top is the head of
  the list. When the stack runs out the cursor stays where it is.\<close>

fun pop_up :: "nat \<Rightarrow> pm_state \<Rightarrow> nat list \<Rightarrow> pm_state" where
  "pop_up root s [] = s\<lparr>s_nodeStack := []\<rparr>"
| "pop_up root s (parent # stack) =
     (case nextSibling (s_dom s) parent of
        Some sib \<Rightarrow> s\<lparr>s_curNode := Some sib, s_nodeStack := stack\<rparr>
      | None \<Rightarrow>
          if parent = root then s\<lparr>s_curNode := None, s_done := True, s_nodeStack := stack\<rparr>
          else pop_up root s stack)"

text \<open>\<open>matches.shift()\<close>\<close>

definition shift :: "'a list \<Rightarrow> 'a option \<times> 'a list" where
  "shift xs = (case xs of [] \<Rightarrow> (None, []) | x # rest \<Rightarrow> (Some x, rest))"

text \<open>The branch taken when the start and the end portion are both known: the match is
  replaced and the walk resumes from the node \<open>replaceMatch\<close> returns.\<close>

definition hand_off ::
  "options \<Rightarrow> pm_state \<Rightarrow> match_meta \<Rightarrow> portion \<Rightarrow> portion \<Rightarrow> (dom_error \<times> dom) + pm_state"
where
  "hand_off opts s m startPortion endPortion =
     (case replaceMatch (s_dom s) opts m startPortion (s_innerPortions s) endPortion of
        Inl e \<Rightarrow> Inl e
      | Inr (d', rvs, created, nextNode) \<Rightarrow>
          (let (match', matches') = shift (s_matches s)
           in Inr (s\<lparr>s_dom := d',
                     s_reverts := s_reverts s @ rvs,
                     s_created := created @ s_created s,
                     s_startPortion := None,
                     s_endPortion := None,
                     s_innerPortions := [],
                     s_atIndex := m_endIndex m,
                     s_match := match',
                     s_matches := matches',
                     s_portionIndex := 0,
                     s_consumedInMatch := 0,
                     s_curNode := nextNode,
                     s_done := (if match' = None then True else s_done s)\<rparr>)))"

text \<open>One iteration of the \<open>while (curNode && !done)\<close> loop.\<close>

definition pm_step :: "options \<Rightarrow> nat \<Rightarrow> pm_state \<Rightarrow> (dom_error \<times> dom) + pm_state" where
  "pm_step opts root s =
     (case s_curNode s of
        None \<Rightarrow> Inr s
      | Some curNode \<Rightarrow>
          if curNode \<in> set (s_created s)
          then (case nextSibling (s_dom s) curNode of
                  Some sib \<Rightarrow> Inr (s\<lparr>s_curNode := Some sib\<rparr>)
                | None \<Rightarrow> Inr (pop_up root s (s_nodeStack s)))
          else
            (let s1 = visit s curNode;
                 doAvoidNode = (nodeType (s_dom s) curNode = ELEMENT_NODE
                                \<and> filtered_out opts (s_dom s) curNode)
             in case (s_startPortion s1, s_endPortion s1, s_match s1) of
                  (Some startPortion, Some endPortion, Some m) \<Rightarrow>
                    hand_off opts s1 m startPortion endPortion
                | _ \<Rightarrow>
                    if \<not> doAvoidNode \<and> firstChild (s_dom s1) curNode \<noteq> None
                    then Inr (s1\<lparr>s_nodeStack := curNode # s_nodeStack s1,
                                 s_curNode := firstChild (s_dom s1) curNode\<rparr>)
                    else (case nextSibling (s_dom s1) curNode of
                            Some sib \<Rightarrow> Inr (s1\<lparr>s_curNode := Some sib\<rparr>)
                          | None \<Rightarrow> Inr (pop_up root s1 (s_nodeStack s1)))))"

definition running :: "pm_state \<Rightarrow> bool" where
  "running s = (s_curNode s \<noteq> None \<and> \<not> s_done s)"

text \<open>The loop. Nothing bounds its iterations in the source, so it takes fuel.\<close>

fun pm_loop :: "nat \<Rightarrow> options \<Rightarrow> nat \<Rightarrow> pm_state \<Rightarrow> (dom_error \<times> dom) + pm_state" where
  "pm_loop 0 opts root s = (if running s then Inl (OutOfFuel, s_dom s) else Inr s)"
| "pm_loop (Suc k) opts root s =
     (if running s
      then (case pm_step opts root s of
              Inl e \<Rightarrow> Inl e
            | Inr s' \<Rightarrow> pm_loop k opts root s')
      else Inr s)"

definition pm_init :: "dom \<Rightarrow> nat \<Rightarrow> match_meta list \<Rightarrow> pm_state" where
  "pm_init d root ms =
     (let (match0, matches) = shift ms
      in \<lparr>s_dom = d, s_reverts = [], s_created = [], s_matches = matches, s_match = match0,
          s_startPortion = None, s_endPortion = None, s_innerPortions = [],
          s_curNode = Some root, s_atIndex = 0, s_portionIndex = 0, s_consumedInMatch = 0,
          s_nodeStack = [root], s_done = False\<rparr>)"

definition processMatches ::
  "nat \<Rightarrow> options \<Rightarrow> dom \<Rightarrow> nat \<Rightarrow> match_meta list \<Rightarrow> (dom_error \<times> dom) + pm_state"
where
  "processMatches fuel opts d root ms = pm_loop fuel opts root (pm_init d root ms)"

section \<open>The Finder and the Reverter\<close>

record finder =
  f_dom :: dom
  f_node :: nat
  f_options :: options
  f_reverts :: "revert_op list"
  f_matches :: "match_meta list"
  f_created :: "nat list"

text \<open>The constructor. An error carries the tree as it is when the error is thrown.\<close>

definition Finder :: "nat \<Rightarrow> dom \<Rightarrow> nat \<Rightarrow> options \<Rightarrow> (dom_error \<times> dom) + finder" where
  "Finder fuel d root options0 =
     (let opts = effective_options options0
      in case search fuel d opts root of
           Inl e \<Rightarrow> Inl (e, d)
         | Inr ms \<Rightarrow>
             if ms \<noteq> []
             then (case processMatches fuel opts d root ms of
                     Inl e \<Rightarrow> Inl e
                   | Inr s \<Rightarrow>
                       Inr \<lparr>f_dom = s_dom s, f_node = root, f_options = opts,
                            f_reverts = s_reverts s, f_matches = ms, f_created = s_created s\<rparr>)
             else Inr \<lparr>f_dom = d, f_node = root, f_options = opts,
                       f_reverts = [], f_matches = ms, f_created = []\<rparr>)"

text \<open>\<open>x?.parentNode?.removeChild(x)\<close>\<close>

definition remove_if_attached :: "dom \<Rightarrow> nat option \<Rightarrow> (dom_error \<times> dom) + dom" where
  "remove_if_attached d x =
     (case x of
        None \<Rightarrow> Inr d
      | Some t \<Rightarrow> (case parentNode d t of None \<Rightarrow> Inr d | Some p \<Rightarrow> removeChild d p t))"

text \<open>\<open>if (n.parentNode) n.parentNode.replaceChild(orig, n)\<close>\<close>

definition restore_node :: "dom \<Rightarrow> nat \<Rightarrow> nat \<Rightarrow> (dom_error \<times> dom) + dom" where
  "restore_node d n orig =
     (case parentNode d n of None \<Rightarrow> Inr d | Some p \<Rightarrow> replaceChild d p orig n)"

text \<open>\<open>if (x?.parentNode === parent) parent.removeChild(x)\<close>\<close>

definition remove_if_child_of :: "dom \<Rightarrow> nat option \<Rightarrow> nat option \<Rightarrow> (dom_error \<times> dom) + dom" where
  "remove_if_child_of d parent x =
     (case x of
        None \<Rightarrow> Inr d
      | Some t \<Rightarrow> if parentNode d t = parent then removeChild_at d parent t else Inr d)"

fun run_revert :: "revert_op \<Rightarrow> dom \<Rightarrow> (dom_error \<times> dom) + dom" where
  "run_revert (RevertSingle parent precedingTextNode followingTextNode newNode node) d =
     bindE (remove_if_child_of d parent precedingTextNode) (\<lambda>d1.
     bindE (remove_if_child_of d1 parent followingTextNode) (\<lambda>d2.
       restore_node d2 newNode node))"
| "run_revert (RevertInner innerNode node) d = restore_node d innerNode node"
| "run_revert (RevertMulti startPreceding firstNode matchStartNode startFollowing
                 endPreceding lastNode matchEndNode endFollowing) d =
     bindE (remove_if_attached d startPreceding) (\<lambda>d1.
     bindE (restore_node d1 firstNode matchStartNode) (\<lambda>d2.
     bindE (remove_if_attached d2 startFollowing) (\<lambda>d3.
     bindE (remove_if_attached d3 endPreceding) (\<lambda>d4.
     bindE (restore_node d4 lastNode matchEndNode) (\<lambda>d5.
       remove_if_attached d5 endFollowing)))))"

text \<open>The inverse operations in the order given.\<close>

fun run_reverts :: "revert_op list \<Rightarrow> dom \<Rightarrow> (dom_error \<times> dom) + dom" where
  "run_reverts [] d = Inr d"
| "run_reverts (r # rs) d =
     (case run_revert r d of Inl e \<Rightarrow> Inl e | Inr d1 \<Rightarrow> run_reverts rs d1)"

text \<open>\<open>revert()\<close>: \<open>for (let i = this.reverts.length; i--;) this.reverts[i]()\<close>, then the
  list is emptied.\<close>

definition revert :: "finder \<Rightarrow> (dom_error \<times> dom) + finder" where
  "revert f =
     (case run_reverts (rev (f_reverts f)) (f_dom f) of
        Inl e \<Rightarrow> Inl e
      | Inr d \<Rightarrow> Inr (f\<lparr>f_dom := d, f_reverts := []\<rparr>))"

section \<open>Example trees and options\<close>

text \<open>Concrete inputs on which the theorems below are exercised. \<open>dom_of\<close> builds a
  store from the list of its nodes, node \<open>i\<close> at identity \<open>i\<close>.\<close>

definition text_node :: "string \<Rightarrow> nat option \<Rightarrow> node" where
  "text_node s p =
     \<lparr>n_type = 3, n_name = ''#text'', n_data = s, n_class = [], n_is_text = True,
      n_parent = p, n_children = []\<rparr>"

definition element_node :: "string \<Rightarrow> nat option \<Rightarrow> nat list \<Rightarrow> node" where
  "element_node nm p cs =
     \<lparr>n_type = 1, n_name = nm, n_data = [], n_class = [], n_is_text = False,
      n_parent = p, n_children = cs\<rparr>"

definition dom_of :: "node list \<Rightarrow> dom" where
  "dom_of ns =
     \<lparr>nodes = (\<lambda>i. if i < length ns then ns ! i else text_node [] None), next_id = length ns\<rparr>"

definition default_options :: "find_spec \<Rightarrow> options" where
  "default_options f =
     \<lparr>o_find = f, o_replace = None, o_wrap = None, o_wrapClass = None, o_portionMode = None,
      o_filterElements = None, o_forceContext = None, o_preset = None\<rparr>"

text \<open>A pattern object that matches a fixed string, such as \<open>/TEST/\<close> or \<open>/TEST/g\<close>.\<close>

definition literal_regex :: "bool \<Rightarrow> string \<Rightarrow> find_spec" where
  "literal_regex g s = FindRegExp \<lparr>rx_global = g, rx_lastIndex = 0, rx_matcher = literal_matcher s\<rparr>"

text \<open>\<open><div>Testing 123 HE<em>LLO there</em></div>\<close>, the match of \<open>HELLO\<close> in it and
  its two portions.\<close>

definition ex_hello :: dom where
  "ex_hello =
     dom_of [element_node ''DIV'' None [1, 2], text_node ''Testing 123 HE'' (Some 0),
       element_node ''EM'' (Some 0) [3], text_node ''LLO there'' (Some 2)]"

definition ex_hello_match :: match_meta where
  "ex_hello_match =
     \<lparr>m_text = ''HELLO'', m_caps = [], m_startIndex = 12, m_endIndex = 17, m_index = 0,
      m_input = ''Testing 123 HELLO there''\<rparr>"

definition ex_hello_start :: portion where
  "ex_hello_start =
     \<lparr>p_node = 1, p_index = 0, p_text = ''HE'', p_indexInMatch = 0, p_indexInNode = 12,
      p_endIndexInNode = 17, p_isEnd = False\<rparr>"

definition ex_hello_end :: portion where
  "ex_hello_end =
     \<lparr>p_node = 3, p_index = 1, p_text = ''LLO'', p_indexInMatch = 2, p_indexInNode = -2,
      p_endIndexInNode = 3, p_isEnd = True\<rparr>"

definition ex_first_span :: options where
  "ex_first_span =
     (default_options (FindString ''HELLO''))
       \<lparr>o_wrap := Some (WrapName ''span''), o_portionMode := Some FIRST\<rparr>"

text \<open>A \<open><script>\<close> element, and options that select the prose preset and also set
  \<open>filterElements\<close> and \<open>forceContext\<close> themselves.\<close>

definition ex_script :: dom where
  "ex_script = dom_of [element_node ''SCRIPT'' None []]"

definition ex_opts_preset :: options where
  "ex_opts_preset =
     (default_options (FindString ''a''))
       \<lparr>o_filterElements := Some (\<lambda>d el. True), o_forceContext := Some (ForceBool False),
        o_preset := Some PROSE\<rparr>"

section \<open>Presets and explicit options\<close>

text \<open>
  Claim C4 says that an explicitly supplied \<open>filterElements\<close> or \<open>forceContext\<close> wins
  over the preset's. The constructor spreads the preset after the options, so it is the
  preset that wins: with the prose preset selected, an explicit \<open>forceContext: false\<close>
  is replaced by the preset's predicate, and an explicit filter that accepts every
  element is replaced by one that rejects \<open><script>\<close>.
\<close>

theorem C4_explicit_options_overridden_counterexample:
  "o_forceContext ex_opts_preset = Some (ForceBool False)
   \<and> o_forceContext (effective_options ex_opts_preset) \<noteq> Some (ForceBool False)
   \<and> (case o_filterElements ex_opts_preset of None \<Rightarrow> False | Some f \<Rightarrow> f ex_script 0)
   \<and> \<not> (case o_filterElements (effective_options ex_opts_preset) of
           None \<Rightarrow> False | Some f \<Rightarrow> f ex_script 0)"
proof -
  have "o_forceContext ex_opts_preset = Some (ForceBool False)"
    by (simp add: ex_opts_preset_def default_options_def)
  moreover have "o_forceContext (effective_options ex_opts_preset) \<noteq> Some (ForceBool False)"
    by (simp add: effective_options_def ex_opts_preset_def default_options_def apply_preset_def)
  moreover have "(case o_filterElements ex_opts_preset of None \<Rightarrow> False | Some f \<Rightarrow> f ex_script 0)
     \<and> \<not> (case o_filterElements (effective_options ex_opts_preset) of
             None \<Rightarrow> False | Some f \<Rightarrow> f ex_script 0)"
    by code_simp
  ultimately show ?thesis by blast
qed

text \<open>
  Claim C4, amended: for every options object that selects a preset, the effective
  configuration uses the preset's \<open>forceContext\<close> and \<open>filterElements\<close>, whatever the
  caller supplied for them; the other options (\<open>find\<close>, \<open>replace\<close>, \<open>wrap\<close>,
  \<open>wrapClass\<close>) are the caller's.
\<close>

theorem C4_preset_overrides_explicit_options:
  assumes "o_preset opts = Some p"
  shows "o_forceContext (effective_options opts) = Some (ForceFn NON_INLINE_PROSE)
       \<and> o_filterElements (effective_options opts) = Some prose_filterElements
       \<and> o_find (effective_options opts) = o_find opts
       \<and> o_replace (effective_options opts) = o_replace opts
       \<and> o_wrap (effective_options opts) = o_wrap opts
       \<and> o_wrapClass (effective_options opts) = o_wrapClass opts"
  using assms by (cases p) (simp add: effective_options_def apply_preset_def)

theorem C4_preset_overrides_explicit_options_witness:
  "o_preset ex_opts_preset = Some PROSE
   \<and> o_forceContext (effective_options ex_opts_preset) = Some (ForceFn NON_INLINE_PROSE)
   \<and> o_filterElements (effective_options ex_opts_preset) = Some prose_filterElements"
proof -
  have h: "o_preset ex_opts_preset = Some PROSE"
    by (simp add: ex_opts_preset_def default_options_def)
  show ?thesis
    using h C4_preset_overrides_explicit_options [OF h] by simp
qed

section \<open>Replacement nodes\<close>

lemma createTextNode_props:
  "createTextNode d s = (n, d') \<Longrightarrow>
     n = next_id d \<and> next_id d' = Suc (next_id d) \<and> nodeType d' n = TEXT_NODE
     \<and> node_data d' n = s \<and> childNodes d' n = [] \<and> parentNode d' n = None
     \<and> (\<forall>i. i \<noteq> n \<longrightarrow> nodes d' i = nodes d i)"
  by (auto simp: createTextNode_def new_node_def nodeType_def node_data_def childNodes_def
      parentNode_def)

text \<open>
  Claim C8: with a string replacement, a portion whose computed replacement text is
  empty yields an empty text node and no wrapper, whatever the \<open>wrap\<close> option: the node
  returned is a detached, childless text node with empty data, every node created is a
  text node and no existing node is touched. Under portion mode \<open>first\<close> the text of
  every portion with a positive \<open>indexInMatch\<close> is empty, and the portion at
  \<open>indexInMatch\<close> zero receives the whole interpolated replacement.
\<close>

theorem C8_empty_replacement_has_no_wrapper:
  assumes "o_replace opts = Some (ReplaceString str) \<or> (o_replace opts = None \<and> str = ''$&'')"
  shows "(prepareReplacementString opts str portion m = [] \<longrightarrow>
            (\<exists>n d'. getPortionReplacementNode d opts portion m = Inr (n, d')
               \<and> nodeType d' n = TEXT_NODE \<and> node_data d' n = []
               \<and> childNodes d' n = [] \<and> parentNode d' n = None
               \<and> list_all (\<lambda>i. nodeType d' i = TEXT_NODE) [next_id d..<next_id d']
               \<and> (\<forall>i<next_id d. nodes d' i = nodes d i)))
       \<and> (o_portionMode opts = Some FIRST \<and> 0 < p_indexInMatch portion \<longrightarrow>
            prepareReplacementString opts str portion m = [])
       \<and> (o_portionMode opts = Some FIRST \<and> p_indexInMatch portion = 0 \<longrightarrow>
            prepareReplacementString opts str portion m = interpolate str m)"
proof (intro conjI impI)
  assume empty: "prepareReplacementString opts str portion m = []"
  from assms
  have rep: "(case o_replace opts of None \<Rightarrow> ReplaceString ''$&'' | Some r \<Rightarrow> r) = ReplaceString str"
    by auto
  obtain t d1 where c1: "createTextNode d [] = (t, d1)" by (cases "createTextNode d []")
  obtain t2 d2 where c2: "createTextNode d1 [] = (t2, d2)" by (cases "createTextNode d1 []")
  note p1 = createTextNode_props[OF c1] and p2 = createTextNode_props[OF c2]
  show "\<exists>n d'. getPortionReplacementNode d opts portion m = Inr (n, d')
               \<and> nodeType d' n = TEXT_NODE \<and> node_data d' n = []
               \<and> childNodes d' n = [] \<and> parentNode d' n = None
               \<and> list_all (\<lambda>i. nodeType d' i = TEXT_NODE) [next_id d..<next_id d']
               \<and> (\<forall>i<next_id d. nodes d' i = nodes d i)"
  proof (cases "no_wrap opts")
    case True
    then have "getPortionReplacementNode d opts portion m = Inr (t, d1)"
      by (simp add: getPortionReplacementNode_def rep empty c1)
    with p1 show ?thesis by (auto simp: nodeType_def)
  next
    case False
    then have "getPortionReplacementNode d opts portion m = Inr (t2, d2)"
      by (simp add: getPortionReplacementNode_def rep empty c1 c2)
    moreover have "list_all (\<lambda>i. nodeType d2 i = TEXT_NODE) [next_id d..<next_id d2]"
      using p1 p2 by (auto simp: nodeType_def upt_rec[of "next_id d"] upt_rec[of "Suc (next_id d)"])
    ultimately show ?thesis using p1 p2 by auto
  qed
next
  assume "o_portionMode opts = Some FIRST \<and> 0 < p_indexInMatch portion"
  then show "prepareReplacementString opts str portion m = []"
    by (simp add: prepareReplacementString_def)
next
  assume "o_portionMode opts = Some FIRST \<and> p_indexInMatch portion = 0"
  then show "prepareReplacementString opts str portion m = interpolate str m"
    by (simp add: prepareReplacementString_def)
qed

lemma ex_first_span_facts:
  "o_replace ex_first_span = None"
  "o_portionMode ex_first_span = Some FIRST \<and> 0 < p_indexInMatch ex_hello_end"
  "o_portionMode ex_first_span = Some FIRST \<and> p_indexInMatch ex_hello_start = 0"
  "prepareReplacementString ex_first_span ''$&'' ex_hello_end ex_hello_match = []"
  "interpolate ''$&'' ex_hello_match = ''HELLO''"
  by code_simp+

theorem C8_empty_replacement_has_no_wrapper_witness:
  "prepareReplacementString ex_first_span ''$&'' ex_hello_end ex_hello_match = []
   \<and> (\<exists>n d'. getPortionReplacementNode ex_hello ex_first_span ex_hello_end ex_hello_match = Inr (n, d')
               \<and> nodeType d' n = TEXT_NODE \<and> node_data d' n = []
               \<and> childNodes d' n = [] \<and> parentNode d' n = None
               \<and> list_all (\<lambda>i. nodeType d' i = TEXT_NODE) [next_id ex_hello..<next_id d'])
   \<and> prepareReplacementString ex_first_span ''$&'' ex_hello_start ex_hello_match = ''HELLO''"
  using C8_empty_replacement_has_no_wrapper
          [of ex_first_span "''$&''" ex_hello_end ex_hello_match ex_hello]
        C8_empty_replacement_has_no_wrapper
          [of ex_first_span "''$&''" ex_hello_start ex_hello_match ex_hello]
        ex_first_span_facts
  by auto

text \<open>
  Claim C10: when \<open>replace\<close> is a function, \<open>wrap\<close> and \<open>wrapClass\<close> are ignored.
  The replacement node is the same whatever the two options are set to; it is the node
  the function returned, with the tree untouched, or a fresh text node holding the
  returned value as a string. No element is created in either case.
\<close>

theorem C10_function_replacement_ignores_wrap:
  assumes "o_replace opts = Some (ReplaceFn f)"
  shows "getPortionReplacementNode d (opts\<lparr>o_wrap := w, o_wrapClass := c\<rparr>) portion m
           = getPortionReplacementNode d opts portion m
       \<and> (\<exists>n d'. getPortionReplacementNode d opts portion m = Inr (n, d')
             \<and> list_all (\<lambda>i. nodeType d' i = TEXT_NODE) [next_id d..<next_id d']
             \<and> (\<forall>i<next_id d. nodes d' i = nodes d i)
             \<and> (case f portion m of
                   ResNode k \<Rightarrow> n = k \<and> d' = d
                 | ResString s \<Rightarrow>
                     n = next_id d \<and> nodeType d' n = TEXT_NODE \<and> node_data d' n = s
                     \<and> parentNode d' n = None \<and> childNodes d' n = []
                 | ResNumber i \<Rightarrow>
                     n = next_id d \<and> nodeType d' n = TEXT_NODE \<and> node_data d' n = js_String_int i
                     \<and> parentNode d' n = None \<and> childNodes d' n = []))"
proof (intro conjI)
  show "getPortionReplacementNode d (opts\<lparr>o_wrap := w, o_wrapClass := c\<rparr>) portion m
          = getPortionReplacementNode d opts portion m"
    using assms by (simp add: getPortionReplacementNode_def)
next
  show "\<exists>n d'. getPortionReplacementNode d opts portion m = Inr (n, d')
             \<and> list_all (\<lambda>i. nodeType d' i = TEXT_NODE) [next_id d..<next_id d']
             \<and> (\<forall>i<next_id d. nodes d' i = nodes d i)
             \<and> (case f portion m of
                   ResNode k \<Rightarrow> n = k \<and> d' = d
                 | ResString s \<Rightarrow>
                     n = next_id d \<and> nodeType d' n = TEXT_NODE \<and> node_data d' n = s
                     \<and> parentNode d' n = None \<and> childNodes d' n = []
                 | ResNumber i \<Rightarrow>
                     n = next_id d \<and> nodeType d' n = TEXT_NODE \<and> node_data d' n = js_String_int i
                     \<and> parentNode d' n = None \<and> childNodes d' n = [])"
  proof (cases "f portion m")
    case (ResNode k)
    with assms show ?thesis by (simp add: getPortionReplacementNode_def)
  next
    case (ResString s)
    obtain t d1 where c1: "createTextNode d s = (t, d1)" by (cases "createTextNode d s")
    from assms ResString c1 have "getPortionReplacementNode d opts portion m = Inr (t, d1)"
      by (simp add: getPortionReplacementNode_def)
    with createTextNode_props[OF c1] ResString show ?thesis by (auto simp: nodeType_def)
  next
    case (ResNumber i)
    obtain t d1 where c1: "createTextNode d (js_String_int i) = (t, d1)"
      by (cases "createTextNode d (js_String_int i)")
    from assms ResNumber c1 have "getPortionReplacementNode d opts portion m = Inr (t, d1)"
      by (simp add: getPortionReplacementNode_def)
    with createTextNode_props[OF c1] ResNumber show ?thesis by (auto simp: nodeType_def)
  qed
qed

text \<open>The replacement function of the \<open>indexInMatch\<close> tests: it returns the portion's
  offset in the match, a number.\<close>

definition ex_index_fn :: options where
  "ex_index_fn =
     (default_options (literal_regex True ''HELLO''))
       \<lparr>o_replace := Some (ReplaceFn (\<lambda>portion m. ResNumber (int (p_indexInMatch portion))))\<rparr>"

theorem C10_function_replacement_ignores_wrap_witness:
  "getPortionReplacementNode ex_hello
       (ex_index_fn\<lparr>o_wrap := Some (WrapName ''span''), o_wrapClass := Some ''found''\<rparr>)
       ex_hello_end ex_hello_match
     = getPortionReplacementNode ex_hello ex_index_fn ex_hello_end ex_hello_match
   \<and> (\<exists>d'. getPortionReplacementNode ex_hello ex_index_fn ex_hello_end ex_hello_match = Inr (4, d')
         \<and> nodeType d' 4 = TEXT_NODE \<and> node_data d' 4 = ''2'')"
proof -
  have h: "o_replace ex_index_fn
      = Some (ReplaceFn (\<lambda>portion m. ResNumber (int (p_indexInMatch portion))))"
    by (simp add: ex_index_fn_def)
  have e: "next_id ex_hello = 4" "js_String_int (int (p_indexInMatch ex_hello_end)) = ''2''"
    by code_simp+
  show ?thesis
    using C10_function_replacement_ignores_wrap
            [OF h, where d = ex_hello and w = "Some (WrapName ''span'')" and c = "Some ''found''"
               and portion = ex_hello_end and m = ex_hello_match]
          e
    by auto
qed

section \<open>Zero-length matches\<close>

text \<open>The leaf strings of an aggregation, in order.\<close>

fun leaves :: "text_agg \<Rightarrow> string list"
  and leaves_item :: "agg_item \<Rightarrow> string list"
where
  "leaves [] = []"
| "leaves (item # rest) = leaves_item item @ leaves rest"
| "leaves_item (Leaf s) = [s]"
| "leaves_item (Nested textAgg) = leaves textAgg"

text \<open>
  What it means that the pattern produces a match of length zero during the search.
  On one leaf, a global pattern is run from a start position, again from the end of
  each match, and so on; a pattern without the global flag is run once, from the start
  of the leaf. Over the leaves, a global pattern starts the first leaf at the
  \<open>lastIndex\<close> it was handed over with and every later leaf at zero.
\<close>

function scan_meets_empty :: "regex \<Rightarrow> string \<Rightarrow> nat \<Rightarrow> bool" where
  "scan_meets_empty rx item start =
     (case regex_exec rx item start of
        None \<Rightarrow> False
      | Some m \<Rightarrow>
          if r_text m = [] then True
          else scan_meets_empty rx item (r_index m + length (r_text m)))"
  by pat_completeness auto
termination
proof (relation "measure (\<lambda>(rx, item, start). length item - start)")
  show "wf (measure (\<lambda>(rx, item, start). length item - start))"
    by simp
next
  fix rx :: regex and item :: string and start :: nat and m
  assume ex: "regex_exec rx item start = Some m" and ne: "r_text m \<noteq> []"
  from regex_exec_bounds(1,2)[OF ex] ne
  show "((rx, item, r_index m + length (r_text m)), (rx, item, start))
        \<in> measure (\<lambda>(rx, item, start). length item - start)"
    by (cases "r_text m") auto
qed

definition leaf_meets_empty :: "regex \<Rightarrow> nat \<Rightarrow> string \<Rightarrow> bool" where
  "leaf_meets_empty rx start item =
     (if rx_global rx then scan_meets_empty rx item start
      else (case regex_exec rx item 0 of None \<Rightarrow> False | Some m \<Rightarrow> r_text m = []))"

fun produces_empty_match :: "regex \<Rightarrow> nat \<Rightarrow> string list \<Rightarrow> bool" where
  "produces_empty_match rx start [] = False"
| "produces_empty_match rx start (item # rest) =
     (leaf_meets_empty rx start item
      \<or> produces_empty_match rx (if rx_global rx then 0 else start) rest)"

declare scan_meets_empty.simps [simp del]
declare exec_loop.simps [simp del]

lemma exec_loop_empty:
  "scan_meets_empty rx item li \<Longrightarrow> exec_loop rx item off li mi acc = Inl ZeroLengthMatch"
proof (induction rx item off li mi acc rule: exec_loop.induct)
  case (1 rx item offset lastIndex matchIndex matches)
  from "1.prems" obtain m where ex: "regex_exec rx item lastIndex = Some m"
    by (subst (asm) scan_meets_empty.simps) (auto split: option.splits)
  show ?case
  proof (cases "r_text m = []")
    case True
    then show ?thesis
      using ex by (subst exec_loop.simps) (simp add: prepMatch_def)
  next
    case False
    then obtain pm where pm: "prepMatch m matchIndex offset = Inr pm"
      by (simp add: prepMatch_def)
    from "1.prems" ex False
    have "scan_meets_empty rx item (r_index m + length (r_text m))"
      by (subst (asm) scan_meets_empty.simps) simp
    from "1.IH"[OF ex pm this] show ?thesis
      using ex pm by (subst exec_loop.simps) simp
  qed
qed

lemma exec_loop_error:
  "exec_loop rx item off li mi acc = Inl e \<Longrightarrow> e = ZeroLengthMatch"
proof (induction rx item off li mi acc rule: exec_loop.induct)
  case (1 rx item offset lastIndex matchIndex matches)
  show ?case
  proof (cases "regex_exec rx item lastIndex")
    case None
    with "1.prems" show ?thesis by (subst (asm) exec_loop.simps) simp
  next
    case (Some m)
    show ?thesis
    proof (cases "prepMatch m matchIndex offset")
      case (Inl e')
      with Some "1.prems" show ?thesis
        by (subst (asm) exec_loop.simps) (auto simp: prepMatch_def split: if_splits)
    next
      case (Inr pm)
      with Some "1.prems" "1.IH"[OF Some Inr] show ?thesis
        by (subst (asm) exec_loop.simps) simp
    qed
  qed
qed

lemma produces_empty_match_append:
  "produces_empty_match rx start (xs @ ys) =
     (produces_empty_match rx start xs
      \<or> produces_empty_match rx (if rx_global rx \<and> xs \<noteq> [] then 0 else start) ys)"
  by (induction xs arbitrary: start) auto

lemma match_leaf_empty:
  "leaf_meets_empty rx (ss_lastIndex st) item \<Longrightarrow> match_item rx (Leaf item) st = Inl ZeroLengthMatch"
  by (auto simp: leaf_meets_empty_def exec_loop_empty prepMatch_def split: if_splits option.splits)

lemma match_leaf_lastIndex:
  "match_item rx (Leaf item) st = Inr st' \<Longrightarrow>
     ss_lastIndex st' = (if rx_global rx then 0 else ss_lastIndex st)"
  by (auto split: if_splits option.splits sum.splits prod.splits)

lemma match_leaf_error:
  "match_item rx (Leaf item) st = Inl e \<Longrightarrow> e = ZeroLengthMatch"
  by (auto simp: prepMatch_def split: if_splits option.splits sum.splits prod.splits
      dest: exec_loop_error)

text \<open>The search fails on an aggregation whose leaves produce an empty match; it fails
  with no other error; and it leaves \<open>lastIndex\<close> where the next leaf starts.\<close>

lemma matchAggregation_empty:
  "(produces_empty_match rx (ss_lastIndex st) (leaves agg) \<longrightarrow>
      matchAggregation rx agg st = Inl ZeroLengthMatch)
   \<and> (\<forall>e. matchAggregation rx agg st = Inl e \<longrightarrow> e = ZeroLengthMatch)
   \<and> (\<forall>st'. matchAggregation rx agg st = Inr st' \<longrightarrow>
         ss_lastIndex st' = (if rx_global rx \<and> leaves agg \<noteq> [] then 0 else ss_lastIndex st))"
  and match_item_empty:
  "(produces_empty_match rx (ss_lastIndex st) (leaves_item item) \<longrightarrow>
      match_item rx item st = Inl ZeroLengthMatch)
   \<and> (\<forall>e. match_item rx item st = Inl e \<longrightarrow> e = ZeroLengthMatch)
   \<and> (\<forall>st'. match_item rx item st = Inr st' \<longrightarrow>
         ss_lastIndex st' = (if rx_global rx \<and> leaves_item item \<noteq> [] then 0 else ss_lastIndex st))"
proof (induction rx agg st and rx item st rule: matchAggregation_match_item.induct)
  case (1 rx st)
  show ?case by simp
next
  case (2 rx item rest st)
  show ?case
  proof (cases "match_item rx item st")
    case (Inl e)
    with "2.IH"(1) have "e = ZeroLengthMatch" by blast
    with Inl show ?thesis by simp
  next
    case (Inr st')
    note ih1 = "2.IH"(1) and ih2 = "2.IH"(2)[OF Inr]
    from ih1 Inr have no: "\<not> produces_empty_match rx (ss_lastIndex st) (leaves_item item)"
      and li: "ss_lastIndex st' = (if rx_global rx \<and> leaves_item item \<noteq> [] then 0 else ss_lastIndex st)"
      by auto
    show ?thesis
      using ih2 no li Inr by (auto simp: produces_empty_match_append)
  qed
next
  case (3 rx textAgg st)
  then show ?case by simp
next
  case (4 rx item st)
  show ?case
    using match_leaf_empty[of rx st item] match_leaf_lastIndex[of rx item st]
      match_leaf_error[of rx item st]
    by (auto simp del: match_item.simps)
qed

text \<open>
  Claim C2: when the pattern produces a match of length zero on the aggregated text, the
  constructor raises the zero-length error during the search, and the tree the error
  leaves behind is the tree it was given: nothing was mutated.
\<close>

theorem C2_zero_length_match_aborts_before_mutation:
  assumes "getAggregateText fuel d (effective_options options0) root = Inr agg"
    and "produces_empty_match (find_regex (o_find options0))
           (rx_lastIndex (find_regex (o_find options0))) (leaves agg)"
  shows "Finder fuel d root options0 = Inl (ZeroLengthMatch, d)"
proof -
  have find: "o_find (effective_options options0) = o_find options0"
    by (cases "o_preset options0")
       (auto simp: effective_options_def Let_def apply_preset_def split: Preset.splits)
  let ?rx = "find_regex (o_find options0)"
  let ?st = "\<lparr>ss_matches = [], ss_matchIndex = 0, ss_offset = 0, ss_lastIndex = rx_lastIndex ?rx\<rparr>"
  from assms(2) matchAggregation_empty[of ?rx ?st agg]
  have "matchAggregation ?rx agg ?st = Inl ZeroLengthMatch" by simp
  then have "search fuel d (effective_options options0) root = Inl ZeroLengthMatch"
    using assms(1) by (simp add: search_def search_agg_def find)
  then show ?thesis by (simp add: Finder_def)
qed

text \<open>\<open><div>111 foo 222 foo</div>\<close> searched for the empty string, whose pattern matches
  the empty text at offset zero.\<close>

definition ex_foo :: dom where
  "ex_foo = dom_of [element_node ''DIV'' None [1], text_node ''111 foo 222 foo'' (Some 0)]"

definition ex_find_empty :: options where
  "ex_find_empty = default_options (FindString [])"

lemma ex_foo_empty_find:
  "getAggregateText 5 ex_foo (effective_options ex_find_empty) 0 = Inr [Leaf ''111 foo 222 foo'']"
  "produces_empty_match (find_regex (o_find ex_find_empty))
     (rx_lastIndex (find_regex (o_find ex_find_empty))) (leaves [Leaf ''111 foo 222 foo''])"
  by code_simp+

theorem C2_zero_length_match_aborts_before_mutation_witness:
  "Finder 5 ex_foo 0 ex_find_empty = Inl (ZeroLengthMatch, ex_foo)"
  using C2_zero_length_match_aborts_before_mutation [OF ex_foo_empty_find] .

section \<open>Patterns without the global flag\<close>

text \<open>The leaves with the offset at which each starts in the aggregated text, and what
  a pattern without the global flag finds in one of them: its first match there, if any,
  numbered zero.\<close>

fun leaf_offsets :: "string list \<Rightarrow> int \<Rightarrow> (int \<times> string) list" where
  "leaf_offsets [] off = []"
| "leaf_offsets (item # rest) off = (off, item) # leaf_offsets rest (off + int (length item))"

definition first_match_in_leaf :: "regex \<Rightarrow> int \<times> string \<Rightarrow> match_meta list" where
  "first_match_in_leaf rx =
     (\<lambda>(off, item).
        case regex_exec rx item 0 of
          None \<Rightarrow> []
        | Some r \<Rightarrow>
            [\<lparr>m_text = r_text r, m_caps = r_caps r,
              m_startIndex = off + int (r_index r),
              m_endIndex = off + int (r_index r) + int (length (r_text r)),
              m_index = 0, m_input = item\<rparr>])"

text \<open>\<open><div><p>a</p><p>a</p></div>\<close> with every element its own context, searched with
  \<open>/a/\<close>.\<close>

definition ex_two_p :: dom where
  "ex_two_p =
     dom_of [element_node ''DIV'' None [1, 2], element_node ''P'' (Some 0) [3],
       element_node ''P'' (Some 0) [4], text_node ''a'' (Some 1), text_node ''a'' (Some 2)]"

definition ex_single_shot :: options where
  "ex_single_shot =
     (default_options (literal_regex False ''a''))
       \<lparr>o_forceContext := Some (ForceBool True), o_wrap := Some (WrapName ''x'')\<rparr>"

lemma leaf_offsets_append:
  "leaf_offsets (xs @ ys) off
     = leaf_offsets xs off @ leaf_offsets ys (off + int (length (concat xs)))"
  by (induction xs arbitrary: off) (auto simp: algebra_simps)

lemma length_leaf_offsets: "length (leaf_offsets xs off) = length xs"
  by (induction xs arbitrary: off) auto

lemma length_first_match_in_leaf: "length (first_match_in_leaf rx p) \<le> 1"
  by (cases p) (auto simp: first_match_in_leaf_def split: option.splits)

lemma length_concat_first_matches:
  "length (concat (map (first_match_in_leaf rx) ps)) \<le> length ps"
proof (induction ps)
  case Nil
  show ?case by simp
next
  case (Cons p ps)
  with length_first_match_in_leaf[of rx p] show ?case by simp
qed

lemma matchAggregation_single_shot:
  "\<not> rx_global rx \<Longrightarrow> matchAggregation rx agg st = Inr st' \<Longrightarrow>
     ss_matches st' = ss_matches st
        @ concat (map (first_match_in_leaf rx) (leaf_offsets (leaves agg) (ss_offset st)))
     \<and> ss_offset st' = ss_offset st + int (length (concat (leaves agg)))"
  and match_item_single_shot:
  "\<not> rx_global rx \<Longrightarrow> match_item rx item st = Inr st' \<Longrightarrow>
     ss_matches st' = ss_matches st
        @ concat (map (first_match_in_leaf rx) (leaf_offsets (leaves_item item) (ss_offset st)))
     \<and> ss_offset st' = ss_offset st + int (length (concat (leaves_item item)))"
proof (induction rx agg st and rx item st arbitrary: st' and st'
    rule: matchAggregation_match_item.induct)
  case (1 rx st)
  then show ?case by simp
next
  case (2 rx item rest st)
  from "2.prems"(2) obtain st1 where s1: "match_item rx item st = Inr st1"
    and s2: "matchAggregation rx rest st1 = Inr st'"
    by (auto split: sum.splits)
  from "2.IH"(1)[OF "2.prems"(1) s1] "2.IH"(2)[OF s1 "2.prems"(1) s2]
  show ?case by (simp add: leaf_offsets_append algebra_simps)
next
  case (3 rx textAgg st)
  then show ?case by simp
next
  case (4 rx item st)
  then show ?case
    by (auto simp: first_match_in_leaf_def prepMatch_def regex_exec_bounds(4)
        split: option.splits if_splits)
qed

text \<open>
  Claim C6 says that a pattern without the global flag yields at most one match overall.
  The search runs \<open>item.match(regex)\<close> on every leaf string, so it yields one match for
  each leaf that has one: on two paragraphs that each hold an \<open>a\<close>, \<open>/a/\<close> yields two
  matches, and both are replaced.
\<close>

theorem C6_single_shot_matches_every_leaf_counterexample:
  "search 5 ex_two_p (effective_options ex_single_shot) 0
     = Inr [\<lparr>m_text = ''a'', m_caps = [], m_startIndex = 0, m_endIndex = 1, m_index = 0,
              m_input = ''a''\<rparr>,
            \<lparr>m_text = ''a'', m_caps = [], m_startIndex = 1, m_endIndex = 2, m_index = 0,
              m_input = ''a''\<rparr>]
   \<and> (case Finder 20 ex_two_p 0 ex_single_shot of
         Inl e \<Rightarrow> []
       | Inr f \<Rightarrow> map (\<lambda>p. map (n_name \<circ> nodes (f_dom f)) (childNodes (f_dom f) p)) [1, 2])
       = [[''x''], [''x'']]"
  by code_simp

text \<open>
  Claim C6, amended: for a pattern without the global flag the search takes, from every
  leaf string of the aggregation in order, the first match of that leaf if it has one,
  at the leaf's offset in the aggregated text and with match index zero; so there is at
  most one match for each leaf string (and at most one overall when the aggregation has
  a single leaf).
\<close>

theorem C6_single_shot_first_match_of_each_leaf:
  assumes "\<not> rx_global (find_regex (o_find opts))"
    and "search_agg opts agg = Inr ms"
  shows "ms = concat (map (first_match_in_leaf (find_regex (o_find opts)))
                       (leaf_offsets (leaves agg) 0))
       \<and> length ms \<le> length (leaves agg)"
proof -
  let ?rx = "find_regex (o_find opts)"
  let ?st = "\<lparr>ss_matches = [], ss_matchIndex = 0, ss_offset = 0, ss_lastIndex = rx_lastIndex ?rx\<rparr>"
  from assms(2) obtain st' where st': "matchAggregation ?rx agg ?st = Inr st'" and ms: "ms = ss_matches st'"
    by (auto simp: search_agg_def Let_def split: sum.splits)
  from matchAggregation_single_shot[OF assms(1) st'] ms
  have eq: "ms = concat (map (first_match_in_leaf ?rx) (leaf_offsets (leaves agg) 0))"
    by simp
  with length_concat_first_matches[of ?rx "leaf_offsets (leaves agg) 0"]
  show ?thesis by (simp add: length_leaf_offsets)
qed

lemma ex_single_shot_facts:
  "\<not> rx_global (find_regex (o_find (effective_options ex_single_shot)))"
  "search_agg (effective_options ex_single_shot) [Leaf [], Nested [Leaf ''a''], Leaf [], Nested [Leaf ''a''], Leaf []]
     = Inr [\<lparr>m_text = ''a'', m_caps = [], m_startIndex = 0, m_endIndex = 1, m_index = 0,
              m_input = ''a''\<rparr>,
            \<lparr>m_text = ''a'', m_caps = [], m_startIndex = 1, m_endIndex = 2, m_index = 0,
              m_input = ''a''\<rparr>]"
  "leaves [Leaf [], Nested [Leaf ''a''], Leaf [], Nested [Leaf ''a''], Leaf []] = [[], ''a'', [], ''a'', []]"
  by code_simp+

theorem C6_single_shot_first_match_of_each_leaf_witness:
  "\<not> rx_global (find_regex (o_find (effective_options ex_single_shot)))
   \<and> length [\<lparr>m_text = ''a'', m_caps = [], m_startIndex = 0, m_endIndex = 1, m_index = 0,
              m_input = ''a''\<rparr>,
            \<lparr>m_text = ''a'', m_caps = [], m_startIndex = 1, m_endIndex = 2, m_index = (0::nat),
              m_input = ''a''\<rparr>]
       \<le> length (leaves [Leaf [], Nested [Leaf ''a''], Leaf [], Nested [Leaf ''a''], Leaf []])"
  using C6_single_shot_first_match_of_each_leaf [OF ex_single_shot_facts(1,2)]
    ex_single_shot_facts(1)
  by blast

section \<open>Left and right context in a replacement template\<close>

text \<open>\<open><div><p>ab</p><p>cd</p></div>\<close> with every element its own context. The template
  \<open>[$`]\<close> asks for the text left of the match, \<open>[$']\<close> for the text right of it.\<close>

definition ex_ab_cd :: dom where
  "ex_ab_cd =
     dom_of [element_node ''DIV'' None [1, 2], element_node ''P'' (Some 0) [3],
       element_node ''P'' (Some 0) [4], text_node ''ab'' (Some 1), text_node ''cd'' (Some 2)]"

definition ex_left_context :: options where
  "ex_left_context =
     (default_options (literal_regex False ''d''))
       \<lparr>o_forceContext := Some (ForceBool True),
        o_replace := Some (ReplaceString [CHR ''['', CHR ''$'', CHR 0x60, CHR '']''])\<rparr>"

definition ex_right_context :: options where
  "ex_right_context =
     (default_options (literal_regex False ''c''))
       \<lparr>o_forceContext := Some (ForceBool True),
        o_replace := Some (ReplaceString [CHR ''['', CHR ''$'', CHR 0x27, CHR '']''])\<rparr>"

text \<open>
  Claim C5 does not hold on the code. The match records the leaf it was found in as its
  \<open>input\<close> and its offsets in the whole aggregated text; the template reads
  \<open>input.substring(0, startIndex)\<close> and \<open>input.substring(endIndex)\<close>. In the second
  paragraph the match \<open>d\<close> starts at offset 3 of the stream \<open>abcd\<close>, whose text before
  it is \<open>abc\<close>; the left context the code inserts is \<open>cd\<close>, which holds the match
  itself. For the match \<open>c\<close> the text after it is \<open>d\<close>; the right context the code
  inserts is empty.
\<close>

theorem C5_context_of_a_later_leaf:
  "search 5 ex_ab_cd (effective_options ex_left_context) 0
     = Inr [\<lparr>m_text = ''d'', m_caps = [], m_startIndex = 3, m_endIndex = 4, m_index = 0,
              m_input = ''cd''\<rparr>]
   \<and> map_sum id leaves (getAggregateText 5 ex_ab_cd (effective_options ex_left_context) 0)
       = Inr [[], ''ab'', [], ''cd'', []]
   \<and> (case Finder 20 ex_ab_cd 0 ex_left_context of
         Inl e \<Rightarrow> []
       | Inr f \<Rightarrow> map (node_data (f_dom f)) (childNodes (f_dom f) 2))
       = [''c'', ''[cd]'']
   \<and> (case Finder 20 ex_ab_cd 0 ex_right_context of
         Inl e \<Rightarrow> []
       | Inr f \<Rightarrow> map (node_data (f_dom f)) (childNodes (f_dom f) 2))
       = [''[]'', ''d'']"
  by code_simp

section \<open>A resolved node that is not a text node\<close>

text \<open>\<open><div>aa</div>\<close> as two text nodes \<open>a\<close>, the first of which is not an instance
  of \<open>Text\<close> (a node of another realm); every \<open>a\<close> is to be wrapped in \<open>x\<close>.\<close>

definition ex_foreign :: dom where
  "ex_foreign =
     dom_of [element_node ''DIV'' None [1, 2], (text_node ''a'' (Some 0))\<lparr>n_is_text := False\<rparr>,
       text_node ''a'' (Some 0)]"

definition ex_wrap_all :: options where
  "ex_wrap_all = (default_options (literal_regex True ''a''))\<lparr>o_wrap := Some (WrapName ''x'')\<rparr>"

definition ex_match_a :: "nat \<Rightarrow> match_meta" where
  "ex_match_a i =
     \<lparr>m_text = ''a'', m_caps = [], m_startIndex = int i, m_endIndex = int i + 1, m_index = i,
      m_input = ''aa''\<rparr>"

text \<open>The traversal of \<open>ex_foreign\<close> when it reaches the first text node.\<close>

definition ex_foreign_state :: pm_state where
  "ex_foreign_state =
     (pm_init ex_foreign 0 [ex_match_a 0, ex_match_a 1])\<lparr>s_curNode := Some 1, s_nodeStack := [0, 0]\<rparr>"

text \<open>
  Claim C7 says that after such a match is skipped the traversal continues and later
  matches are replaced. \<open>replaceMatch\<close> returns \<open>null\<close> for the skipped match and the
  loop takes that as its next node, so it stops: of the two matches found here none is
  replaced, although the second lies in an ordinary text node.
\<close>

theorem C7_later_matches_not_processed_counterexample:
  "(case Finder 20 ex_foreign 0 ex_wrap_all of
      Inl e \<Rightarrow> False
    | Inr f \<Rightarrow>
        f_matches f = [ex_match_a 0, ex_match_a 1]
        \<and> f_reverts f = []
        \<and> childNodes (f_dom f) 0 = [1, 2]
        \<and> map (node_data (f_dom f)) [1, 2] = [''a'', ''a'']
        \<and> next_id (f_dom f) = 3)
   \<and> n_is_text (nodes ex_foreign 2)"
  by code_simp

text \<open>
  Claim C7, amended: when the start or the end node resolved for a match is not an
  instance of \<open>Text\<close>, the match is skipped silently (no error, no replacement, no
  inverse operation, no created node) and the traversal ends there: the loop returns
  at once with the tree as it was, and the matches that remain are not processed.
\<close>

theorem C7_non_text_match_skipped_and_traversal_ends:
  assumes "s_curNode s = Some curNode" and "\<not> s_done s" and "curNode \<notin> set (s_created s)"
    and "s_startPortion (visit s curNode) = Some startPortion"
    and "s_endPortion (visit s curNode) = Some endPortion"
    and "s_match (visit s curNode) = Some m"
    and "\<not> n_is_text (nodes (s_dom s) (p_node startPortion))
         \<or> \<not> n_is_text (nodes (s_dom s) (p_node endPortion))"
  shows "\<exists>s'. (\<forall>fuel. pm_loop (Suc fuel) opts root s = Inr s')
           \<and> s_dom s' = s_dom s \<and> s_reverts s' = s_reverts s \<and> s_created s' = s_created s
           \<and> s_curNode s' = None
           \<and> (s_match s', s_matches s') = shift (s_matches s)"
proof -
  have dom_visit: "s_dom (visit s curNode) = s_dom s"
    and rv_visit: "s_reverts (visit s curNode) = s_reverts s"
    and cr_visit: "s_created (visit s curNode) = s_created s"
    and ms_visit: "s_matches (visit s curNode) = s_matches s"
    by (auto simp: visit_def visit_text_def Let_def split: option.splits)
  have skip: "replaceMatch (s_dom s) opts m startPortion (s_innerPortions (visit s curNode)) endPortion
                = Inr (s_dom s, [], [], None)"
    using assms(7) by (auto simp: replaceMatch_def)
  obtain s' where step: "pm_step opts root s = Inr s'"
    and props: "s_dom s' = s_dom s" "s_reverts s' = s_reverts s" "s_created s' = s_created s"
      "s_curNode s' = None" "(s_match s', s_matches s') = shift (s_matches s)"
    using assms(1,3,4,5,6) skip dom_visit rv_visit cr_visit ms_visit
    by (cases "shift (s_matches s)") (auto simp: pm_step_def hand_off_def Let_def)
  have run: "running s" using assms(1,2) by (simp add: running_def)
  have stop: "\<not> running s'" using props(4) by (simp add: running_def)
  have "pm_loop (Suc fuel) opts root s = Inr s'" for fuel
    using run step stop by (cases fuel) simp_all
  with props show ?thesis by blast
qed

lemma ex_foreign_state_facts:
  "s_curNode ex_foreign_state = Some 1"
  "\<not> s_done ex_foreign_state"
  "1 \<notin> set (s_created ex_foreign_state)"
  "s_startPortion (visit ex_foreign_state 1)
     = Some \<lparr>p_node = 1, p_index = 1, p_text = ''a'', p_indexInMatch = 0, p_indexInNode = 0,
             p_endIndexInNode = 1, p_isEnd = False\<rparr>"
  "s_endPortion (visit ex_foreign_state 1)
     = Some \<lparr>p_node = 1, p_index = 0, p_text = ''a'', p_indexInMatch = 0, p_indexInNode = 0,
             p_endIndexInNode = 1, p_isEnd = True\<rparr>"
  "s_match (visit ex_foreign_state 1) = Some (ex_match_a 0)"
  "\<not> n_is_text (nodes (s_dom ex_foreign_state) 1)"
  "childNodes (s_dom ex_foreign_state) 0 = [1, 2]"
  "shift (s_matches ex_foreign_state) = (Some (ex_match_a 1), [])"
  by code_simp+

theorem C7_non_text_match_skipped_and_traversal_ends_witness:
  "\<exists>s'. pm_loop 1 ex_wrap_all 0 ex_foreign_state = Inr s'
      \<and> childNodes (s_dom s') 0 = [1, 2] \<and> s_reverts s' = s_reverts ex_foreign_state
      \<and> s_curNode s' = None \<and> s_match s' = Some (ex_match_a 1)"
proof -
  have ns: "\<not> n_is_text (nodes (s_dom ex_foreign_state)
                (p_node \<lparr>p_node = 1, p_index = 1, p_text = ''a'', p_indexInMatch = 0, p_indexInNode = 0,
                   p_endIndexInNode = 1, p_isEnd = False\<rparr>))
            \<or> \<not> n_is_text (nodes (s_dom ex_foreign_state)
                (p_node \<lparr>p_node = 1, p_index = 0, p_text = ''a'', p_indexInMatch = 0, p_indexInNode = 0,
                   p_endIndexInNode = 1, p_isEnd = True\<rparr>))"
    using ex_foreign_state_facts(7) by simp
  from C7_non_text_match_skipped_and_traversal_ends
         [OF ex_foreign_state_facts(1,2,3,4,5,6) ns, of ex_wrap_all 0]
  obtain s' where "\<forall>fuel. pm_loop (Suc fuel) ex_wrap_all 0 ex_foreign_state = Inr s'"
    and "s_dom s' = s_dom ex_foreign_state" and "s_reverts s' = s_reverts ex_foreign_state"
    and "s_curNode s' = None"
    and "(s_match s', s_matches s') = shift (s_matches ex_foreign_state)"
    by blast
  then show ?thesis
    using ex_foreign_state_facts(8,9) by (intro exI[of _ s']) (auto simp: One_nat_def)
qed

section \<open>Reverting twice\<close>

text \<open>
  Claim C9: once \<open>revert()\<close> has returned, the list of inverse operations is empty, and
  a second \<open>revert()\<close> returns the same handle with the same tree: it mutates nothing.
\<close>

theorem C9_revert_idempotent:
  assumes "revert f = Inr f1"
  shows "f_reverts f1 = [] \<and> revert f1 = Inr f1"
  using assms by (auto simp: revert_def split: sum.splits)

text \<open>\<open><div>111 foo 222 foo</div>\<close> with every \<open>foo\<close> replaced by \<open>bar\<close>.\<close>

definition ex_foo_bar :: options where
  "ex_foo_bar = (default_options (FindString ''foo''))\<lparr>o_replace := Some (ReplaceString ''bar'')\<rparr>"

lemma ex_foo_bar_run:
  "case Finder 20 ex_foo 0 ex_foo_bar of
     Inl e \<Rightarrow> False
   | Inr f \<Rightarrow>
       length (f_reverts f) = 2
       \<and> map (node_data (f_dom f)) (childNodes (f_dom f) 0) = [''111 '', ''bar'', '' 222 '', ''bar'']
       \<and> (case revert f of
            Inl e \<Rightarrow> False
          | Inr f1 \<Rightarrow> map (node_data (f_dom f1)) (childNodes (f_dom f1) 0) = [''111 foo 222 foo''])"
  by code_simp

theorem C9_revert_idempotent_witness:
  "\<exists>f f1. Finder 20 ex_foo 0 ex_foo_bar = Inr f \<and> length (f_reverts f) = 2
      \<and> revert f = Inr f1 \<and> f_reverts f1 = [] \<and> revert f1 = Inr f1
      \<and> map (node_data (f_dom f1)) (childNodes (f_dom f1) 0) = [''111 foo 222 foo'']"
proof -
  from ex_foo_bar_run obtain f where f: "Finder 20 ex_foo 0 ex_foo_bar = Inr f"
    and n: "length (f_reverts f) = 2"
    and r: "case revert f of
              Inl e \<Rightarrow> False
            | Inr f1 \<Rightarrow> map (node_data (f_dom f1)) (childNodes (f_dom f1) 0) = [''111 foo 222 foo'']"
    by (cases "Finder 20 ex_foo 0 ex_foo_bar") auto
  from r obtain f1 where f1: "revert f = Inr f1"
    and t: "map (node_data (f_dom f1)) (childNodes (f_dom f1) 0) = [''111 foo 222 foo'']"
    by (cases "revert f") auto
  from C9_revert_idempotent [OF f1] f n f1 t show ?thesis
    by (intro exI[of _ f] exI[of _ f1]) simp
qed

end
